theory Spec2Isabelle
  imports Complex_Main
begin

section \<open>Boundary-layer damping field (\<open>damp_op\<close>, \<open>initialize_damp\<close>)\<close>

text \<open>
  Conventions of the embedding. Machine floats (\<open>np.float32\<close>, \<open>np.float64\<close>, Python
  floats) are idealised as \<open>real\<close>; \<open>np.log\<close>, \<open>np.sqrt\<close> and \<open>sin\<close> are the real
  functions \<open>ln\<close>, \<open>sqrt\<close> and \<open>sin\<close>. A Devito \<open>Function\<close> over an n-dimensional grid is
  a map from index tuples to values. The compiled \<open>Operator\<close> runs its equations in the
  order in which \<open>damp_op\<close> appended them; an \<open>Eq\<close> assigns every grid point and an
  \<open>Inc\<close> over a \<open>SubDimension\<close> adds to the points of that sub-range only.
\<close>

type_synonym field = "nat list \<Rightarrow> real"

record grid =
  shape :: "nat list"
  spacing :: "real list"

text \<open>\<open>Eq(damp, 1.0 if abc_type == "mask" else 0.0)\<close>\<close>

definition base_value :: "string \<Rightarrow> real" where
  "base_value abc_type = (if abc_type = ''mask'' then 1.0 else 0.0)"

definition eq_base :: "string \<Rightarrow> field" where
  "eq_base abc_type = (\<lambda>idx. base_value abc_type)"

text \<open>
  The value added at offset \<open>k\<close> from the outer edge of the grid, for a layer of (already
  reduced) thickness \<open>nb\<close>:
  \<^verbatim>\<open>dampcoeff = 1.5 * np.log(1.0 / 0.001) / (nbl)\<close>,
  \<^verbatim>\<open>pos = Abs((nbl - (dim_l - d.symbolic_min) + 1) / float(nbl))\<close>,
  \<^verbatim>\<open>val = dampcoeff * (pos - sin(2*np.pi*pos)/(2*np.pi))\<close>,
  \<^verbatim>\<open>val = -val if abc_type == "mask" else val\<close>.
\<close>

definition dampcoeff :: "int \<Rightarrow> real" where
  "dampcoeff nb = 1.5 * ln (1.0 / 0.001) / real_of_int nb"

definition pos :: "int \<Rightarrow> int \<Rightarrow> real" where
  "pos nb k = \<bar>real_of_int (nb - k + 1) / real_of_int nb\<bar>"

definition val :: "string \<Rightarrow> int \<Rightarrow> int \<Rightarrow> real" where
  "val abc_type nb k =
     (let v = dampcoeff nb * (pos nb k - sin (2 * pi * pos nb k) / (2 * pi))
      in if abc_type = ''mask'' then - v else v)"

text \<open>
  \<open>SubDimension.left(parent=d, thickness=nb)\<close> ranges over the \<open>nb\<close> points
  \<open>d.symbolic_min, \<dots>, d.symbolic_min + nb - 1\<close>, and \<open>SubDimension.right\<close> over
  \<open>d.symbolic_max - nb + 1, \<dots>, d.symbolic_max\<close>; every other dimension runs over its
  whole range. \<open>d.symbolic_min\<close> is index 0 and \<open>d.symbolic_max\<close> is the last index
  of dimension \<open>d\<close> of the field the operator is applied to.
\<close>

definition inc_left :: "string \<Rightarrow> grid \<Rightarrow> nat \<Rightarrow> int \<Rightarrow> field \<Rightarrow> field" where
  "inc_left abc_type g d nb f =
     (\<lambda>idx. let k = int (idx ! d) in
        if k < nb then f idx + val abc_type nb k / (spacing g ! d) else f idx)"

definition inc_right :: "string \<Rightarrow> grid \<Rightarrow> nat \<Rightarrow> int \<Rightarrow> field \<Rightarrow> field" where
  "inc_right abc_type g d nb f =
     (\<lambda>idx. let k = (int (shape g ! d) - 1) - int (idx ! d) in
        if 0 \<le> k \<and> k < nb then f idx + val abc_type nb k / (spacing g ! d) else f idx)"

text \<open>
  The loop \<^verbatim>\<open>for (nbl, nbr), d in zip(padsizes, damp.dimensions)\<close>. For a side of
  thickness at most 3 the reduced thickness \<open>nb - 3\<close> is not positive: the sub-range of
  its \<open>SubDimension\<close> is empty and the increment touches no point, so the coefficient
  (a division by zero for \<open>nb = 3\<close>) is never used and every point keeps its value.
\<close>

fun damp_loop ::
  "string \<Rightarrow> bool \<Rightarrow> grid \<Rightarrow> nat \<Rightarrow> ((int \<times> int) \<times> nat) list \<Rightarrow> field \<Rightarrow> field" where
  "damp_loop abc_type fs g ndim [] f = f"
| "damp_loop abc_type fs g ndim (((nbl, nbr), d) # rest) f =
     (let f1 = (if \<not> fs \<or> d \<noteq> ndim - 1 then inc_left abc_type g d (nbl - 3) f else f)
      in damp_loop abc_type fs g ndim rest (inc_right abc_type g d (nbr - 3) f1))"

definition damp_op :: "nat \<Rightarrow> (int \<times> int) list \<Rightarrow> string \<Rightarrow> bool \<Rightarrow> grid \<Rightarrow> field" where
  "damp_op ndim padsizes abc_type fs g =
     damp_loop abc_type fs g ndim (zip padsizes [0..<ndim]) (eq_base abc_type)"

text \<open>\<open>initialize_damp\<close> runs the operator on the model's own field and grid.\<close>

definition initialize_damp :: "grid \<Rightarrow> (int \<times> int) list \<Rightarrow> string \<Rightarrow> bool \<Rightarrow> field" where
  "initialize_damp g padsizes abc_type fs = damp_op (length (shape g)) padsizes abc_type fs g"

text \<open>Reading one cell of the field after initialisation: \<open>damp.data[idx]\<close>.\<close>

definition damp_at ::
  "grid \<Rightarrow> (int \<times> int) list \<Rightarrow> string \<Rightarrow> bool \<Rightarrow> nat list \<Rightarrow> real" where
  "damp_at g padsizes abc_type fs idx = initialize_damp g padsizes abc_type fs idx"

subsection \<open>The profile as the specification words it\<close>

text \<open>
  The ramp of an effective thickness \<open>n\<close> at distance \<open>dst\<close> from the outer edge of the
  layer: \<open>coeff = 1.5 \<cdot> ln(1000) / n\<close>, \<open>pos = |n - dst + 1| / n\<close>,
  \<open>ramp = coeff \<cdot> (pos - sin(2\<pi>\<cdot>pos) / (2\<pi>))\<close>. A cell lies in the layer of a side when
  its distance to that side's outer edge is below the effective thickness, which is the
  thickness \<open>t\<close> of the side less the 3-cell buffer.
\<close>

definition layer_ramp :: "int \<Rightarrow> int \<Rightarrow> real" where
  "layer_ramp n dst =
     (let coeff = 1.5 * ln 1000 / real_of_int n;
          p = \<bar>real_of_int (n - dst + 1)\<bar> / real_of_int n
      in coeff * (p - sin (2 * pi * p) / (2 * pi)))"

definition in_layer :: "int \<Rightarrow> int \<Rightarrow> bool" where
  "in_layer n dst = (0 \<le> dst \<and> dst < n)"

definition dist_near :: "nat list \<Rightarrow> nat \<Rightarrow> int" where
  "dist_near idx d = int (idx ! d)"

definition dist_far :: "grid \<Rightarrow> nat list \<Rightarrow> nat \<Rightarrow> int" where
  "dist_far g idx d = int (shape g ! d) - 1 - int (idx ! d)"

definition side_contribution :: "real \<Rightarrow> int \<Rightarrow> int \<Rightarrow> real" where
  "side_contribution h t dst =
     (if in_layer (t - 3) dst then layer_ramp (t - 3) dst / h else 0)"

text \<open>
  The near side of dimension \<open>d\<close> is processed unless the free surface is on and \<open>d\<close> is
  the last dimension (\<^verbatim>\<open>if not fs or d is not damp.dimensions[-1]\<close>).
\<close>

definition left_active :: "bool \<Rightarrow> nat \<Rightarrow> nat \<Rightarrow> bool" where
  "left_active fs ndim d = (\<not> fs \<or> d \<noteq> ndim - 1)"

text \<open>All processed sides are thicker than the 3-cell buffer.\<close>

definition thick_enough :: "bool \<Rightarrow> grid \<Rightarrow> (int \<times> int) list \<Rightarrow> bool" where
  "thick_enough fs g padsizes =
     (length padsizes = length (shape g) \<and>
      (\<forall>d<length (shape g). 3 < snd (padsizes ! d) \<and>
         (left_active fs (length (shape g)) d \<longrightarrow> 3 < fst (padsizes ! d))))"

text \<open>The sum over all dimensions of the contributions of their processed sides.\<close>

definition layers_total :: "bool \<Rightarrow> grid \<Rightarrow> (int \<times> int) list \<Rightarrow> nat list \<Rightarrow> real" where
  "layers_total fs g padsizes idx =
     (\<Sum>d<length (shape g).
        (if left_active fs (length (shape g)) d
         then side_contribution (spacing g ! d) (fst (padsizes ! d)) (dist_near idx d) else 0)
        + side_contribution (spacing g ! d) (snd (padsizes ! d)) (dist_far g idx d))"

text \<open>A cell outside the layer of every processed side.\<close>

definition interior :: "bool \<Rightarrow> grid \<Rightarrow> (int \<times> int) list \<Rightarrow> nat list \<Rightarrow> bool" where
  "interior fs g padsizes idx =
     (\<forall>d<length (shape g).
        (left_active fs (length (shape g)) d \<longrightarrow>
           \<not> in_layer (fst (padsizes ! d) - 3) (dist_near idx d))
        \<and> \<not> in_layer (snd (padsizes ! d) - 3) (dist_far g idx d))"

text \<open>Auxiliary forms of the operator's increments, used in the proofs.\<close>

definition side_term :: "string \<Rightarrow> real \<Rightarrow> int \<Rightarrow> int \<Rightarrow> real" where
  "side_term abc_type h nb k = (if 0 \<le> k \<and> k < nb then val abc_type nb k / h else 0)"

definition dim_term ::
  "string \<Rightarrow> bool \<Rightarrow> grid \<Rightarrow> nat \<Rightarrow> nat list \<Rightarrow> (int \<times> int) \<times> nat \<Rightarrow> real" where
  "dim_term abc_type fs g ndim idx p =
     (case p of ((nbl, nbr), d) \<Rightarrow>
        (if left_active fs ndim d
         then side_term abc_type (spacing g ! d) (nbl - 3) (int (idx ! d)) else 0)
        + side_term abc_type (spacing g ! d) (nbr - 3) (int (shape g ! d) - 1 - int (idx ! d)))"

section \<open>The physical model (\<open>class Model\<close>)\<close>

subsection \<open>Values, arrays and errors\<close>

text \<open>
  An exception of the source is a value of type \<open>error\<close>. \<open>Unmodelled\<close> marks a place
  where what happens is decided inside the external framework, outside this embedding.
\<close>

datatype error =
    ValueError string
  | TypeError string
  | AttributeError string
  | IndexError string
  | Unmodelled string

text \<open>
  A numpy array: its shape and its entries by index tuple. Arrays are taken to be
  non-empty.
\<close>

record ndarray =
  nd_shape :: "nat list"
  nd_data :: "nat list \<Rightarrow> real"

text \<open>
  An argument of the constructor that is \<open>array_like or float\<close>: an array or a number of
  floating-point type (\<open>Arr\<close>, \<open>Num\<close>), or an array or a number of integer type
  (\<open>IntArr\<close>, whose entries are whole numbers, and \<open>IntNum\<close>). The integer type matters
  to \<open>np.reciprocal\<close> only; everywhere else an integer behaves as the float of the same
  value.
\<close>

datatype pyval = Arr ndarray | Num real | IntArr ndarray | IntNum int

text \<open>
  What an attribute of the model holds after construction: a Devito \<open>Function\<close> (data on
  the padded grid), a Devito \<open>Constant\<close>, a plain Python number (\<open>self.irho = 1\<close>, the
  \<open>default_value\<close> 0), or the symbolic quotient \<open>1 / p\<close> of \<open>_init_density\<close>.
\<close>

datatype phys_param =
    Function ndarray
  | Constant real
  | Number real
  | Reciprocal phys_param

text \<open>\<open>self.damp\<close> is either the initialised field or the number 1.\<close>

datatype damp_attr = DampFunction field | DampOne

text \<open>
  Routines of external libraries that the source calls, taken as parameters:
  \<open>sympy.finite_diff_weights(order, x_list, x0)\<close>, and Devito's
  \<open>initialize_function(function, data, padsizes)\<close>, given here as the padded data it
  writes for an array, the pad sizes and the shape of the padded grid.
\<close>

record externals =
  fd_w :: "nat \<Rightarrow> real list \<Rightarrow> real \<Rightarrow> real list list list"
  initialize_function :: "ndarray \<Rightarrow> (int \<times> int) list \<Rightarrow> nat list \<Rightarrow> ndarray"

text \<open>All index tuples of a shape; \<open>np.amin\<close> and \<open>np.amax\<close>.\<close>

definition indices :: "nat list \<Rightarrow> nat list list" where
  "indices s = List.product_lists (map (\<lambda>n. [0..<n]) s)"

definition entries :: "ndarray \<Rightarrow> real list" where
  "entries a = map (nd_data a) (indices (nd_shape a))"

definition amin :: "pyval \<Rightarrow> real" where
  "amin v = (case v of Arr a \<Rightarrow> Min (set (entries a)) | Num x \<Rightarrow> x
             | IntArr a \<Rightarrow> Min (set (entries a)) | IntNum i \<Rightarrow> real_of_int i)"

definition amax :: "pyval \<Rightarrow> real" where
  "amax v = (case v of Arr a \<Rightarrow> Max (set (entries a)) | Num x \<Rightarrow> x
             | IntArr a \<Rightarrow> Max (set (entries a)) | IntNum i \<Rightarrow> real_of_int i)"

text \<open>
  \<open>1 + 2 * v\<close>, elementwise on an array or a number; an integer operand gives an integer
  result.
\<close>

definition one_plus_twice :: "pyval \<Rightarrow> pyval" where
  "one_plus_twice v =
     (case v of
        Arr a \<Rightarrow> Arr (a\<lparr>nd_data := (\<lambda>idx. 1 + 2 * nd_data a idx)\<rparr>)
      | Num x \<Rightarrow> Num (1 + 2 * x)
      | IntArr a \<Rightarrow> IntArr (a\<lparr>nd_data := (\<lambda>idx. 1 + 2 * nd_data a idx)\<rparr>)
      | IntNum i \<Rightarrow> IntNum (1 + 2 * i))"

text \<open>
  \<open>np.reciprocal(v)\<close>, elementwise. On floats it is \<open>1 / x\<close>. On integers it is the
  integer quotient truncated towards zero, of integer type: \<open>1\<close> and \<open>-1\<close> are kept and
  every integer of absolute value above 1 gives \<open>0\<close>. (The source calls it only when
  \<open>amin / amax > 0.1\<close>, where no entry is \<open>0\<close>.)
\<close>

definition int_reciprocal :: "int \<Rightarrow> int" where
  "int_reciprocal i = (if \<bar>i\<bar> = 1 then i else 0)"

definition np_reciprocal :: "pyval \<Rightarrow> pyval" where
  "np_reciprocal v =
     (case v of
        Arr a \<Rightarrow> Arr (a\<lparr>nd_data := (\<lambda>idx. 1 / nd_data a idx)\<rparr>)
      | Num x \<Rightarrow> Num (1 / x)
      | IntArr a \<Rightarrow>
          IntArr (a\<lparr>nd_data := (\<lambda>idx. real_of_int (int_reciprocal \<lfloor>nd_data a idx\<rfloor>))\<rparr>)
      | IntNum i \<Rightarrow> IntNum (int_reciprocal i))"

text \<open>
  \<open>function.data[:] = field\<close>: numpy broadcasts \<open>field\<close> to the shape of the data. Axes
  that \<open>field\<close> has in excess must come first and have length 1; the remaining axes are
  aligned with the last axes of the data, where each must have the length of the data's
  axis or length 1. Otherwise numpy raises a \<open>ValueError\<close>.
\<close>

definition broadcastable :: "nat list \<Rightarrow> nat list \<Rightarrow> bool" where
  "broadcastable s t =
     (let k = length s - length t; s' = drop k s
      in list_all (\<lambda>n. n = 1) (take k s) \<and>
         list_all2 (\<lambda>n m. n = m \<or> n = 1) s' (drop (length t - length s') t))"

definition np_assign :: "nat list \<Rightarrow> ndarray \<Rightarrow> error + ndarray" where
  "np_assign t a =
     (if broadcastable (nd_shape a) t
      then (let k = length (nd_shape a) - length t; s' = drop k (nd_shape a)
            in Inr \<lparr>nd_shape = t,
                      nd_data = (\<lambda>idx. nd_data a
                         (replicate k 0 @
                          map2 (\<lambda>i n. if n = 1 then 0 else i)
                            (drop (length t - length s') idx) s'))\<rparr>)
      else Inl (ValueError ''could not broadcast input array''))"

subsection \<open>The model object and its constructor\<close>

record model =
  self_shape :: "nat list"
  self_nbl :: nat
  self_fs :: bool
  self_grid :: grid
  self_damp :: damp_attr
  self_physical_parameters :: "string list"
  self_scale :: real
  self_space_order :: int
  self_m :: "phys_param option"
  self_irho :: phys_param
  self_rho :: "phys_param option"
  self_dm :: phys_param
  self_is_viscoacoustic :: bool
  self_is_elastic :: bool
  self_is_tti :: bool
  self_qp :: "phys_param option"
  self_epsilon :: "phys_param option"
  self_delta :: "phys_param option"
  self_theta :: "phys_param option"
  self_phi :: "phys_param option"
  self_lam :: "phys_param option"
  self_mu :: "phys_param option"
  self_dt :: "real option"

text \<open>
  The arguments of \<open>Model.__init__\<close>. \<open>origin\<close>, \<open>dtype\<close> and \<open>abox\<close> play no part in
  what is embedded and are left out; \<open>arg_dt\<close> is \<open>kwargs.get('dt')\<close>. An optional
  argument that is \<open>None\<close> is \<open>None\<close> here.
\<close>

record init_args =
  arg_spacing :: "real list"
  arg_shape :: "nat list"
  arg_space_order :: int
  arg_nbl :: nat
  arg_m :: "pyval option"
  arg_epsilon :: "pyval option"
  arg_delta :: "pyval option"
  arg_theta :: "pyval option"
  arg_phi :: "pyval option"
  arg_rho :: "pyval option"
  arg_b :: "pyval option"
  arg_qp :: "pyval option"
  arg_lam :: "pyval option"
  arg_mu :: "pyval option"
  arg_dm :: "pyval option"
  arg_fs :: bool
  arg_dt :: "real option"

text \<open>\<open>abc_type = "mask" if (qp is not None or mu is not None) else "damp"\<close>\<close>

definition abc_type_of :: "init_args \<Rightarrow> string" where
  "abc_type_of a = (if arg_qp a \<noteq> None \<or> arg_mu a \<noteq> None then ''mask'' else ''damp'')"

text \<open>
  \<open>shape_pml = np.array(shape) + 2 * self.nbl\<close>, and with a free surface
  \<open>shape_pml[-1] -= self.nbl\<close>. The grid built from the extent
  \<open>spacing * (shape_pml - 1)\<close> has the spacing of the arguments.
\<close>

definition shape_pml :: "nat list \<Rightarrow> nat \<Rightarrow> bool \<Rightarrow> nat list" where
  "shape_pml shp nbl fs =
     (let s = map (\<lambda>n. n + 2 * nbl) shp
      in if fs then s[length s - 1 := s ! (length s - 1) - nbl] else s)"

text \<open>
  The property \<open>padsizes\<close>:
  \<^verbatim>\<open>padsizes = [(self.nbl, self.nbl) for _ in range(self.dim-1)]\<close>,
  \<^verbatim>\<open>padsizes.append((0 if self.fs else self.nbl, self.nbl))\<close>.
\<close>

definition padsizes_of :: "nat \<Rightarrow> nat \<Rightarrow> bool \<Rightarrow> (int \<times> int) list" where
  "padsizes_of ndim nbl fs =
     replicate (ndim - 1) (int nbl, int nbl) @ [(if fs then 0 else int nbl, int nbl)]"

text \<open>The property \<open>dim\<close> (\<open>self.grid.dim\<close>).\<close>

definition dim_of :: "model \<Rightarrow> nat" where
  "dim_of mdl = length (shape (self_grid mdl))"

definition padsizes :: "model \<Rightarrow> (int \<times> int) list" where
  "padsizes mdl = padsizes_of (dim_of mdl) (self_nbl mdl) (self_fs mdl)"

text \<open>
  \<open>_gen_phys_param(field, name, space_order)\<close>, with the list
  \<open>self._physical_parameters\<close> passed through. The default value is 0 at every call.
  The data of a \<open>Function\<close> and the value of a \<open>Constant\<close> are of the grid's
  floating-point type, whatever the type of \<open>field\<close>.
\<close>

definition gen_phys_param ::
  "externals \<Rightarrow> nat list \<Rightarrow> grid \<Rightarrow> (int \<times> int) list \<Rightarrow> pyval option \<Rightarrow> string \<Rightarrow> string list
     \<Rightarrow> error + (phys_param \<times> string list)" where
  "gen_phys_param ext shp g pads field name params =
     (case field of
        None \<Rightarrow> Inr (Number 0, params)
      | Some (Arr a) \<Rightarrow>
          (if nd_shape a = shp
           then Inr (Function (initialize_function ext a pads (shape g)), params @ [name])
           else (case np_assign (shape g) a of
                   Inl e \<Rightarrow> Inl e
                 | Inr b \<Rightarrow> Inr (Function b, params @ [name])))
      | Some (IntArr a) \<Rightarrow>
          (if nd_shape a = shp
           then Inr (Function (initialize_function ext a pads (shape g)), params @ [name])
           else (case np_assign (shape g) a of
                   Inl e \<Rightarrow> Inl e
                 | Inr b \<Rightarrow> Inr (Function b, params @ [name])))
      | Some (Num x) \<Rightarrow> Inr (Constant (amin (Num x)), params @ [name])
      | Some (IntNum i) \<Rightarrow> Inr (Constant (amin (IntNum i)), params @ [name]))"

text \<open>Sequencing of steps that may raise.\<close>

definition then_do :: "error + 'a \<Rightarrow> ('a \<Rightarrow> error + 'b) \<Rightarrow> error + 'b" where
  "then_do r k = (case r of Inl e \<Rightarrow> Inl e | Inr x \<Rightarrow> k x)"

text \<open>
  \<open>_init_density(rho, b, so)\<close>: the pair \<open>(self.irho, self.rho)\<close> and the extended list of
  parameter names.
\<close>

definition init_density ::
  "externals \<Rightarrow> nat list \<Rightarrow> grid \<Rightarrow> (int \<times> int) list \<Rightarrow> pyval option \<Rightarrow> pyval option \<Rightarrow> string list
     \<Rightarrow> error + ((phys_param \<times> phys_param option) \<times> string list)" where
  "init_density ext shp g pads rho b params =
     (case rho of
        Some r \<Rightarrow>
          (let rm = amin r; rM = amax r in
           if rm / rM > 0.1
           then then_do (gen_phys_param ext shp g pads (Some (np_reciprocal r)) ''irho'' params)
                  (\<lambda>(p, ps). Inr ((p, Some (Reciprocal p)), ps))
           else then_do (gen_phys_param ext shp g pads (Some r) ''rho'' params)
                  (\<lambda>(p, ps). Inr ((Reciprocal p, Some p), ps)))
      | None \<Rightarrow>
          (case b of
             Some bv \<Rightarrow> then_do (gen_phys_param ext shp g pads (Some bv) ''irho'' params)
                          (\<lambda>(p, ps). Inr ((p, None), ps))
           | None \<Rightarrow> Inr ((Number 1, None), params)))"

text \<open>
  The attribute written by \<open>self.x = self._gen_phys_param(...)\<close> under a condition:
  \<open>None\<close> when the condition is false and the attribute is never assigned.
\<close>

definition gen_when ::
  "bool \<Rightarrow> externals \<Rightarrow> nat list \<Rightarrow> grid \<Rightarrow> (int \<times> int) list \<Rightarrow> pyval option \<Rightarrow> string \<Rightarrow> string list
     \<Rightarrow> error + (phys_param option \<times> string list)" where
  "gen_when c ext shp g pads field name params =
     (if c then then_do (gen_phys_param ext shp g pads field name params)
                  (\<lambda>(p, ps). Inr (Some p, ps))
      else Inr (None, params))"

definition Model_init :: "externals \<Rightarrow> init_args \<Rightarrow> error + model" where
  "Model_init ext a =
     (let shp = arg_shape a; nbl = arg_nbl a; fs = arg_fs a; so = arg_space_order a;
          abc_type = abc_type_of a;
          g = \<lparr>shape = shape_pml shp nbl fs, spacing = arg_spacing a\<rparr>;
          pads = padsizes_of (length (shape g)) nbl fs;
          is_viscoacoustic = (arg_qp a \<noteq> None);
          is_elastic = (arg_mu a \<noteq> None);
          is_tti = (arg_epsilon a \<noteq> None \<or> arg_delta a \<noteq> None \<or> arg_theta a \<noteq> None
                     \<or> arg_phi a \<noteq> None);
          epsilon = (case arg_epsilon a of None \<Rightarrow> Num 1
                     | Some e \<Rightarrow> one_plus_twice e);
          delta = (case arg_delta a of None \<Rightarrow> Num 1
                   | Some d \<Rightarrow> one_plus_twice d)
      in
      then_do (if nbl \<noteq> 0
               then Inr (DampFunction (initialize_damp g pads abc_type fs), [''damp''])
               else Inr (DampOne, [])) (\<lambda>(damp, p0).
      then_do (gen_when (arg_m a \<noteq> None) ext shp g pads (arg_m a) ''m'' p0) (\<lambda>(m, p1).
      then_do (init_density ext shp g pads (arg_rho a) (arg_b a) p1) (\<lambda>((irho, rho), p2).
      then_do (gen_phys_param ext shp g pads (arg_dm a) ''dm'' p2) (\<lambda>(dm, p3).
      then_do (gen_when is_viscoacoustic ext shp g pads (arg_qp a) ''qp'' p3) (\<lambda>(qp, p4).
      then_do (gen_when is_tti ext shp g pads (Some epsilon) ''epsilon'' p4) (\<lambda>(eps, p5).
      then_do (gen_when is_tti ext shp g pads (Some delta) ''delta'' p5) (\<lambda>(del, p6).
      then_do (gen_when is_tti ext shp g pads (arg_theta a) ''theta'' p6) (\<lambda>(theta, p7).
      then_do (gen_when (is_tti \<and> length (shape g) = 3) ext shp g pads (arg_phi a) ''phi'' p7)
        (\<lambda>(phi, p8).
      then_do (gen_when is_elastic ext shp g pads (arg_lam a) ''lam'' p8) (\<lambda>(lam, p9).
      then_do (gen_when is_elastic ext shp g pads (arg_mu a) ''mu'' p9) (\<lambda>(mu, p10).
      Inr \<lparr>self_shape = shp, self_nbl = nbl, self_fs = fs, self_grid = g,
           self_damp = damp, self_physical_parameters = p10,
           self_scale = (if is_tti then sqrt (amax epsilon) else 1),
           self_space_order = so, self_m = m, self_irho = irho, self_rho = rho,
           self_dm = dm, self_is_viscoacoustic = is_viscoacoustic,
           self_is_elastic = is_elastic, self_is_tti = is_tti, self_qp = qp,
           self_epsilon = eps, self_delta = del, self_theta = theta, self_phi = phi,
           self_lam = lam, self_mu = mu, self_dt = arg_dt a\<rparr>))))))))))))"

section \<open>The stable time step (\<open>critical_dt\<close>)\<close>

text \<open>
  \<open>getmin\<close> and \<open>getmax\<close>: Devito's \<open>mmin\<close> and \<open>mmax\<close> over the data of a \<open>Function\<close>,
  the value of a \<open>Constant\<close>, and \<open>np.min\<close>, \<open>np.max\<close> of anything else. The extremum
  of a symbolic quotient is not a number; what the source does with it is not embedded.
\<close>

fun getmin :: "phys_param \<Rightarrow> error + real" where
  "getmin (Function a) = Inr (Min (set (entries a)))"
| "getmin (Constant c) = Inr c"
| "getmin (Number x) = Inr x"
| "getmin (Reciprocal p) = Inl (Unmodelled ''extremum of a symbolic expression'')"

fun getmax :: "phys_param \<Rightarrow> error + real" where
  "getmax (Function a) = Inr (Max (set (entries a)))"
| "getmax (Constant c) = Inr c"
| "getmax (Number x) = Inr x"
| "getmax (Reciprocal p) = Inl (Unmodelled ''extremum of a symbolic expression'')"

text \<open>Reading an attribute that the constructor may not have assigned.\<close>

definition attr :: "string \<Rightarrow> 'a option \<Rightarrow> error + 'a" where
  "attr name v = (case v of None \<Rightarrow> Inl (AttributeError name) | Some x \<Rightarrow> Inr x)"

text \<open>
  The property \<open>_max_vp\<close>:
  \<^verbatim>\<open>np.sqrt(getmin(self.irho) * (getmax(self.lam) + 2 * getmax(self.mu)))\<close> for an
  elastic model, \<^verbatim>\<open>np.sqrt(1./getmin(self.m))\<close> otherwise.
\<close>

definition max_vp :: "model \<Rightarrow> error + real" where
  "max_vp mdl =
     (if self_is_elastic mdl then
        then_do (getmin (self_irho mdl)) (\<lambda>ir.
        then_do (then_do (attr ''lam'' (self_lam mdl)) getmax) (\<lambda>l.
        then_do (then_do (attr ''mu'' (self_mu mdl)) getmax) (\<lambda>u.
          Inr (sqrt (ir * (l + 2 * u))))))
      else
        then_do (then_do (attr ''_m'' (self_m mdl)) getmin) (\<lambda>mm.
          Inr (sqrt (1 / mm))))"

text \<open>Python's \<open>xs[-1]\<close> and \<open>range(-so, so)\<close>.\<close>

definition py_last :: "'a list \<Rightarrow> error + 'a" where
  "py_last xs = (if xs = [] then Inl (IndexError ''list index out of range'') else Inr (last xs))"

definition py_range :: "int \<Rightarrow> int \<Rightarrow> real list" where
  "py_range a b = map real_of_int [a..b - 1]"

text \<open>
  The property \<open>_cfl_coeff\<close>. Elastic:
  \<^verbatim>\<open>so = max(self.space_order // 2, 2)\<close>,
  \<^verbatim>\<open>coeffs = fd_w(1, range(-so, so), .5)\<close>,
  \<^verbatim>\<open>c_fd = sum(np.abs(coeffs[-1][-1])) / 2\<close>,
  \<^verbatim>\<open>return .9 * np.sqrt(self.dim) / self.dim / c_fd\<close>; otherwise
  \<^verbatim>\<open>a1 = 4\<close>, \<^verbatim>\<open>so = max(self.space_order // 2, 4)\<close>,
  \<^verbatim>\<open>coeffs = fd_w(2, range(-so, so), 0)[-1][-1]\<close>,
  \<^verbatim>\<open>return .9 * np.sqrt(a1/float(self.grid.dim * sum(np.abs(coeffs))))\<close>.
\<close>

definition cfl_coeff :: "externals \<Rightarrow> model \<Rightarrow> error + real" where
  "cfl_coeff ext mdl =
     (if self_is_elastic mdl then
        (let so = max (self_space_order mdl div 2) 2;
             coeffs = fd_w ext 1 (py_range (- so) so) 0.5
         in then_do (then_do (py_last coeffs) py_last) (\<lambda>w.
              let c_fd = sum_list (map abs w) / 2
              in Inr (0.9 * sqrt (real (dim_of mdl)) / real (dim_of mdl) / c_fd)))
      else
        (let a1 = 4;
             so = max (self_space_order mdl div 2) 4
         in then_do (then_do (py_last (fd_w ext 2 (py_range (- so) so) 0)) py_last) (\<lambda>coeffs.
              Inr (0.9 * sqrt (a1 / (real (dim_of mdl) * sum_list (map abs coeffs)))))))"

text \<open>
  The weights \<open>coeffs[-1][-1]\<close> whose absolute values \<open>_cfl_coeff\<close> sums: the last
  entry of the last table that \<open>fd_w\<close> returns, for the first derivative at \<open>.5\<close> on
  \<open>range(-so, so)\<close> with \<open>so = max(space_order // 2, 2)\<close> for an elastic model, for
  the second derivative at \<open>0\<close> with \<open>so = max(space_order // 2, 4)\<close> otherwise.
\<close>

definition stencil_weights :: "externals \<Rightarrow> model \<Rightarrow> error + real list" where
  "stencil_weights ext mdl =
     (if self_is_elastic mdl then
        (let so = max (self_space_order mdl div 2) 2
         in then_do (py_last (fd_w ext 1 (py_range (- so) so) 0.5)) py_last)
      else
        (let so = max (self_space_order mdl div 2) 4
         in then_do (py_last (fd_w ext 2 (py_range (- so) so) 0)) py_last))"

text \<open>
  The property \<open>_thomsen_scale\<close>:
  \<^verbatim>\<open>np.sqrt(1 + 2 * getmax(self.epsilon))\<close> for a TTI model, 1 otherwise.
\<close>

definition thomsen_scale :: "model \<Rightarrow> error + real" where
  "thomsen_scale mdl =
     (if self_is_tti mdl then
        then_do (then_do (attr ''epsilon'' (self_epsilon mdl)) getmax) (\<lambda>e.
          Inr (sqrt (1 + 2 * e)))
      else Inr 1)"

text \<open>
  \<open>"%.<p>e" % x\<close> prints \<open>x\<close> in scientific notation with one digit before the decimal
  point and \<open>p\<close> digits after it, correctly rounded with ties going to the even digit.
  \<open>fmt_e p x\<close> is the number that the printed text denotes, which \<open>self.dtype(...)\<close>
  then reads back.
\<close>

definition round_half_even :: "real \<Rightarrow> int" where
  "round_half_even x =
     (let f = \<lfloor>x\<rfloor>; r = x - of_int f
      in if r < 1 / 2 then f else if 1 / 2 < r then f + 1 else if even f then f else f + 1)"

definition fmt_e :: "nat \<Rightarrow> real \<Rightarrow> real" where
  "fmt_e p x =
     (if x = 0 then 0
      else let e = \<lfloor>log 10 \<bar>x\<bar>\<rfloor>;
               digits = round_half_even (\<bar>x\<bar> / 10 powi e * 10 ^ p)
           in sgn x * of_int digits * 10 powi (e - int p))"

text \<open>The warning of \<open>critical_dt\<close>, with the two numbers its message prints.\<close>

datatype warning = DtTooBig real real

text \<open>
  The property \<open>critical_dt\<close>: the value returned and the warnings emitted.
  \<^verbatim>\<open>if self.dt:\<close> is false for \<open>None\<close> and for 0.
\<close>

definition critical_dt :: "externals \<Rightarrow> model \<Rightarrow> error + (real \<times> warning list)" where
  "critical_dt ext mdl =
     then_do (cfl_coeff ext mdl) (\<lambda>c.
     then_do (thomsen_scale mdl) (\<lambda>ts.
     then_do (max_vp mdl) (\<lambda>vp.
       (let dt = c * Min (set (spacing (self_grid mdl))) / (ts * vp);
            dt = fmt_e 3 dt
        in case self_dt mdl of
             None \<Rightarrow> Inr (dt, [])
           | Some u \<Rightarrow>
               if u \<noteq> 0 then
                 (if u > dt then Inr (dt, [DtTooBig u dt])
                  else Inr (fmt_e 3 u, []))
               else Inr (dt, [])))))"

text \<open>The setter of \<open>dt\<close>: \<^verbatim>\<open>self._dt = dt\<close>.\<close>

definition dt_setter :: "model \<Rightarrow> real option \<Rightarrow> model" where
  "dt_setter mdl dt = mdl\<lparr>self_dt := dt\<rparr>"

subsection \<open>Instances of the external routines\<close>

text \<open>
  \<open>sympy.finite_diff_weights\<close> runs Fornberg's recurrence over the points in the order
  given; entry \<open>[m][n][nu]\<close> of its result is the weight of point \<open>nu\<close> in the
  approximation of the \<open>m\<close>-th derivative at \<open>x0\<close> from the first \<open>n + 1\<close> points.
  \<open>fdw_next\<close> is one pass of its outer loop: the tables \<open>[m][nu]\<close> for \<open>n\<close> from those
  for \<open>n - 1\<close>.
\<close>

definition fdw_next :: "real list \<Rightarrow> real \<Rightarrow> nat \<Rightarrow> real list list \<Rightarrow> real list list" where
  "fdw_next xs x0 n prev =
     (let c1 = prod_list (map (\<lambda>nu. xs ! (n - 1) - xs ! nu) [0..<n - 1]);
          c2 = prod_list (map (\<lambda>nu. xs ! n - xs ! nu) [0..<n])
      in map (\<lambda>m. map (\<lambda>nu.
           if n < m then 0
           else if nu < n then
             ((xs ! n - x0) * (prev ! m ! nu)
                - (if m = 0 then 0 else real m * (prev ! (m - 1) ! nu))) / (xs ! n - xs ! nu)
           else if nu = n then
             c1 / c2 * ((if m = 0 then 0 else real m * (prev ! (m - 1) ! (n - 1)))
                          - (xs ! (n - 1) - x0) * (prev ! m ! (n - 1)))
           else 0) [0..<length xs]) [0..<length prev])"

fun fdw_rows :: "real list \<Rightarrow> real \<Rightarrow> nat \<Rightarrow> nat \<Rightarrow> real list list \<Rightarrow> real list list list" where
  "fdw_rows xs x0 n 0 prev = []"
| "fdw_rows xs x0 n (Suc k) prev =
     (let cur = fdw_next xs x0 n prev in cur # fdw_rows xs x0 (Suc n) k cur)"

definition finite_diff_weights :: "nat \<Rightarrow> real list \<Rightarrow> real \<Rightarrow> real list list list" where
  "finite_diff_weights order xs x0 =
     (let first = map (\<lambda>m. map (\<lambda>nu. if m = 0 \<and> nu = 0 then 1 else 0) [0..<length xs])
                    [0..<Suc order];
          tables = first # fdw_rows xs x0 1 (length xs - 1) first
      in map (\<lambda>m. map (\<lambda>t. t ! m) tables) [0..<Suc order])"

text \<open>
  Padding that repeats the value at the nearest edge, as one instance of what
  \<open>initialize_function\<close> may write.
\<close>

definition pad_edge :: "ndarray \<Rightarrow> (int \<times> int) list \<Rightarrow> nat list \<Rightarrow> ndarray" where
  "pad_edge a pads t =
     \<lparr>nd_shape = t,
      nd_data = (\<lambda>idx. nd_data a
         (map (\<lambda>j. nat (min (int (nd_shape a ! j) - 1) (max 0 (int (idx ! j) - fst (pads ! j)))))
            [0..<length (nd_shape a)]))\<rparr>"

definition library :: externals where
  "library = \<lparr>fd_w = finite_diff_weights, initialize_function = pad_edge\<rparr>"

section \<open>The setters of \<open>m\<close> and \<open>dm\<close>\<close>

text \<open>
  Python's \<open>str\<close> of a non-negative integer and of a tuple of them, and the operator
  \<open>%\<close> on a format that holds only \<open>%s\<close> conversions, applied to a tuple whose items
  are already turned into text. The tuple must have exactly one item per conversion;
  otherwise \<open>%\<close> raises a \<open>TypeError\<close>.
\<close>

function str_nat :: "nat \<Rightarrow> string" where
  "str_nat n =
     (if n < 10 then [char_of (48 + n)]
      else str_nat (n div 10) @ [char_of (48 + n mod 10)])"
  by pat_completeness auto
termination
  by (relation "measure id") auto

declare str_nat.simps [simp del]

fun join_comma :: "string list \<Rightarrow> string" where
  "join_comma [] = []"
| "join_comma [s] = s"
| "join_comma (s # t # rest) = s @ '', '' @ join_comma (t # rest)"

definition str_tuple :: "nat list \<Rightarrow> string" where
  "str_tuple ns =
     (case ns of
        [] \<Rightarrow> ''()''
      | [n] \<Rightarrow> ''('' @ str_nat n @ '',)''
      | _ \<Rightarrow> ''('' @ join_comma (map str_nat ns) @ '')'')"

fun percent_s :: "string \<Rightarrow> string list \<Rightarrow> error + string" where
  "percent_s [] [] = Inr []"
| "percent_s [] (a # as) =
     Inl (TypeError ''not all arguments converted during string formatting'')"
| "percent_s (c # rest) as =
     (if c = CHR ''%'' \<and> rest \<noteq> [] \<and> hd rest = CHR ''s'' then
        (case as of
           [] \<Rightarrow> Inl (TypeError ''not enough arguments for format string'')
         | a # as' \<Rightarrow> (case percent_s (tl rest) as' of
                        Inl e \<Rightarrow> Inl e
                      | Inr s \<Rightarrow> Inr (a @ s)))
      else (case percent_s rest as of
              Inl e \<Rightarrow> Inl e
            | Inr s \<Rightarrow> Inr (c # s)))"

text \<open>
  The exception of the last branch of both setters:
  \<^verbatim>\<open>raise ValueError("Incorrect input size %s for model of size" % m.shape +\<close>
  \<^verbatim>\<open>                 " %s without or %s with padding" % (self.shape, self.m.shape))\<close>.
  The first \<open>%\<close> has the tuple \<open>m.shape\<close> itself as its right operand, so its items are
  the arguments of the format.
\<close>

definition incorrect_input_size :: "nat list \<Rightarrow> nat list \<Rightarrow> nat list \<Rightarrow> error" where
  "incorrect_input_size s shp pshp =
     (case percent_s ''Incorrect input size %s for model of size'' (map str_nat s) of
        Inl e \<Rightarrow> e
      | Inr m1 \<Rightarrow>
          (case percent_s '' %s without or %s with padding'' [str_tuple shp, str_tuple pshp] of
             Inl e \<Rightarrow> e
           | Inr m2 \<Rightarrow> ValueError (m1 @ m2)))"

text \<open>
  The setter of \<open>m\<close> for an array (\<open>isinstance(m, np.ndarray)\<close>): the state of the model
  afterwards and the exception raised, if any. The branch for a value that is not an
  array assigns through the framework's data setter and is not embedded, nor is what the
  framework does when the stored \<open>m\<close> is not a \<open>Function\<close>.
\<close>

definition m_setter :: "externals \<Rightarrow> model \<Rightarrow> ndarray \<Rightarrow> model \<times> error option" where
  "m_setter ext mdl a =
     (case self_m mdl of
        None \<Rightarrow> (mdl, Some (AttributeError ''_m''))
      | Some (Function old) \<Rightarrow>
          if nd_shape a = nd_shape old then
            (mdl\<lparr>self_m := Some (Function (old\<lparr>nd_data := nd_data a\<rparr>))\<rparr>, None)
          else if nd_shape a = self_shape mdl then
            (mdl\<lparr>self_m := Some (Function
               (initialize_function ext a (padsizes mdl) (nd_shape old)))\<rparr>, None)
          else (mdl, Some (incorrect_input_size (nd_shape a) (self_shape mdl) (nd_shape old)))
      | Some _ \<Rightarrow> (mdl, Some (Unmodelled ''the stored m is not a Function'')))"

text \<open>
  The setter of \<open>dm\<close> for an array. While the stored perturbation is not a \<open>Function\<close>
  the array goes to \<open>_gen_phys_param\<close>, which builds the field.
\<close>

definition dm_setter :: "externals \<Rightarrow> model \<Rightarrow> ndarray \<Rightarrow> model \<times> error option" where
  "dm_setter ext mdl a =
     (case self_dm mdl of
        Function old \<Rightarrow>
          if nd_shape a = self_shape mdl then
            (mdl\<lparr>self_dm := Function
               (initialize_function ext a (padsizes mdl) (nd_shape old))\<rparr>, None)
          else if nd_shape a = nd_shape old then
            (mdl\<lparr>self_dm := Function (old\<lparr>nd_data := nd_data a\<rparr>)\<rparr>, None)
          else (mdl, Some (incorrect_input_size (nd_shape a) (self_shape mdl) (nd_shape old)))
      | _ \<Rightarrow>
          (case gen_phys_param ext (self_shape mdl) (self_grid mdl) (padsizes mdl)
                  (Some (Arr a)) ''dm'' (self_physical_parameters mdl) of
             Inl e \<Rightarrow> (mdl, Some e)
           | Inr (p, ps) \<Rightarrow> (mdl\<lparr>self_dm := p, self_physical_parameters := ps\<rparr>, None)))"

section \<open>Reference notions and example inputs\<close>

text \<open>
  Rounding to \<open>n\<close> significant decimal digits: one digit before the decimal point of the
  mantissa and \<open>n - 1\<close> after it.
\<close>

definition round_sig :: "nat \<Rightarrow> real \<Rightarrow> real" where
  "round_sig n x = fmt_e (n - 1) x"

text \<open>
  Centered stencils of half-width \<open>h\<close>: for the second derivative at a grid point, the
  points \<open>-h, \<dots>, h\<close> around it; for the first derivative at the staggered point \<open>1/2\<close>,
  the \<open>h\<close> grid points on either side of it, \<open>-h + 1, \<dots>, h\<close>. The Courant coefficient as
  the specification words it, from the weights of these stencils.
\<close>

definition sum_abs :: "real list \<Rightarrow> real" where
  "sum_abs w = sum_list (map abs w)"

definition centered_second :: "int \<Rightarrow> real list" where
  "centered_second h = last (last (finite_diff_weights 2 (map real_of_int [- h..h]) 0))"

definition centered_first :: "int \<Rightarrow> real list" where
  "centered_first h = last (last (finite_diff_weights 1 (map real_of_int [- h + 1..h]) 0.5))"

definition centered_cfl_coeff :: "bool \<Rightarrow> nat \<Rightarrow> int \<Rightarrow> real" where
  "centered_cfl_coeff elastic ndim so =
     (if elastic
      then 0.9 * sqrt (real ndim) / real ndim / (sum_abs (centered_first (max (so div 2) 2)) / 2)
      else 0.9 * sqrt (4 / (real ndim * sum_abs (centered_second (max (so div 2) 4)))))"

text \<open>
  An acoustic model on a 5 by 5 grid with 4 absorbing cells per side, the default space
  order 8 and a constant squared slowness; the same with a user time step, with a Thomsen
  epsilon of 0.1, and an elastic model of space order 4.
\<close>

definition acoustic_example :: init_args where
  "acoustic_example =
     \<lparr>arg_spacing = [1234 / 100, 1234 / 100], arg_shape = [5, 5], arg_space_order = 8,
      arg_nbl = 4, arg_m = Some (Num (136 / 405)), arg_epsilon = None, arg_delta = None,
      arg_theta = None, arg_phi = None, arg_rho = None, arg_b = None, arg_qp = None,
      arg_lam = None, arg_mu = None, arg_dm = None, arg_fs = False, arg_dt = None\<rparr>"

definition user_dt_example :: init_args where
  "user_dt_example = acoustic_example\<lparr>arg_dt := Some (1234 / 1000)\<rparr>"

definition tti_example :: init_args where
  "tti_example = acoustic_example\<lparr>arg_epsilon := Some (Num (1 / 10))\<rparr>"

definition elastic_example :: init_args where
  "elastic_example =
     acoustic_example\<lparr>arg_space_order := 4, arg_m := None, arg_lam := Some (Num 2),
       arg_mu := Some (Num 1)\<rparr>"

text \<open>
  An array filled with one value (\<open>np.full(s, x)\<close>), and the acoustic example with its
  squared slowness given as an array of the unpadded shape.
\<close>

definition const_array :: "nat list \<Rightarrow> real \<Rightarrow> ndarray" where
  "const_array s x = \<lparr>nd_shape = s, nd_data = (\<lambda>idx. x)\<rparr>"

definition array_example :: init_args where
  "array_example = acoustic_example\<lparr>arg_m := Some (Arr (const_array [5, 5] (136 / 405)))\<rparr>"

section \<open>Properties of the damping field\<close>

subsection \<open>The operator as a sum over dimension-sides\<close>

lemma damp_loop_sum:
  "damp_loop abc_type fs g ndim ps f idx =
     f idx + sum_list (map (dim_term abc_type fs g ndim idx) ps)"
proof (induction ps arbitrary: f)
  case Nil
  then show ?case by simp
next
  case (Cons p ps)
  obtain nbl nbr d where p: "p = ((nbl, nbr), d)" by (metis surj_pair)
  show ?case
    using p
    by (simp add: Cons.IH left_active_def dim_term_def side_term_def inc_left_def
        inc_right_def Let_def)
qed

lemma val_ramp:
  "0 < n \<Longrightarrow> val abc n k = (if abc = ''mask'' then - layer_ramp n k else layer_ramp n k)"
  by (simp add: val_def layer_ramp_def dampcoeff_def pos_def Let_def)

lemma side_term_contribution:
  "side_term abc h (t - 3) k =
     (if abc = ''mask'' then - side_contribution h t k else side_contribution h t k)"
  by (auto simp: side_term_def side_contribution_def in_layer_def val_ramp)

lemma sum_list_zip_upt:
  assumes len: "length ps = n"
  shows "sum_list (map F (zip ps [0..<n])) = (\<Sum>d<n. F (ps ! d, d))"
proof -
  have "zip ps [0..<n] = map (\<lambda>d. (ps ! d, d)) [0..<n]"
    using len by (intro nth_equalityI) auto
  then have "sum_list (map F (zip ps [0..<n])) = sum_list (map (\<lambda>d. F (ps ! d, d)) [0..<n])"
    by (simp add: comp_def)
  also have "\<dots> = (\<Sum>d<n. F (ps ! d, d))"
    by (simp add: sum_list_sum_nth atLeast0LessThan)
  finally show ?thesis .
qed

lemma damp_at_sum:
  assumes len: "length pads = length (shape g)"
  shows "damp_at g pads abc_type fs idx =
     base_value abc_type + (\<Sum>d<length (shape g).
        dim_term abc_type fs g (length (shape g)) idx (pads ! d, d))"
  using len
  by (simp add: damp_at_def initialize_damp_def damp_op_def eq_base_def damp_loop_sum
      sum_list_zip_upt)

lemma dim_term_total:
  "(\<Sum>d<length (shape g). dim_term abc fs g (length (shape g)) idx (pads ! d, d)) =
     (if abc = ''mask'' then - layers_total fs g pads idx else layers_total fs g pads idx)"
proof -
  have "dim_term abc fs g (length (shape g)) idx (pads ! d, d) =
     (if abc = ''mask'' then -1 else 1) *
       ((if left_active fs (length (shape g)) d
         then side_contribution (spacing g ! d) (fst (pads ! d)) (dist_near idx d) else 0)
        + side_contribution (spacing g ! d) (snd (pads ! d)) (dist_far g idx d))" for d
    by (cases "pads ! d")
       (simp add: dim_term_def side_term_contribution dist_near_def dist_far_def)
  then show ?thesis
    by (simp add: layers_total_def sum_distrib_left [symmetric] del: mult_minus1)
qed

lemma interior_total: "interior fs g pads idx \<Longrightarrow> layers_total fs g pads idx = 0"
  unfolding interior_def layers_total_def
  by (intro sum.neutral) (auto simp: side_contribution_def)

lemma damp_at_closed:
  assumes len: "length pads = length (shape g)"
  shows "damp_at g pads abc fs idx =
     (if abc = ''mask'' then 1 - layers_total fs g pads idx
      else layers_total fs g pads idx)"
  by (simp add: damp_at_sum[OF len] dim_term_total base_value_def)

lemma thick_enough_length: "thick_enough fs g pads \<Longrightarrow> length pads = length (shape g)"
  by (simp add: thick_enough_def)

subsection \<open>Values of the damp-type field\<close>

text \<open>
  Claim C1. For a field initialised with \<open>abc_type = "damp"\<close> whose processed sides are all
  thicker than 3 cells, every cell holds the sum, over all dimension-sides whose layer
  contains the cell, of \<open>coeff \<cdot> (pos - sin(2\<pi>\<cdot>pos)/(2\<pi>))\<close> divided by the spacing of that
  dimension, with effective thickness \<open>n = t - 3\<close>, \<open>coeff = 1.5 \<cdot> ln(1000) / n\<close> and
  \<open>pos = |n - dst + 1| / n\<close>, where \<open>dst\<close> is the distance of the cell from the outer edge
  of the layer; a cell in no layer holds exactly 0.
\<close>

theorem damp_field_values:
  "thick_enough fs g pads \<Longrightarrow>
     damp_at g pads ''damp'' fs idx = layers_total fs g pads idx
     \<and> (interior fs g pads idx \<longrightarrow> damp_at g pads ''damp'' fs idx = 0)"
  by (simp add: damp_at_closed thick_enough_length interior_total)

lemma layer_ramp_1_0: "layer_ramp 1 0 = 3 * ln 1000"
proof -
  have "sin (4 * pi) = 0"
    using sin_npi[of 4] by simp
  then show ?thesis
    by (simp add: layer_ramp_def Let_def)
qed

theorem damp_field_values_witness:
  "damp_at \<lparr>shape = [11, 12], spacing = [10, 5]\<rparr> [(5, 5), (5, 5)] ''damp'' False [0, 11]
      = layer_ramp 2 0 / 10 + layer_ramp 2 0 / 5
   \<and> damp_at \<lparr>shape = [11, 12], spacing = [10, 5]\<rparr> [(5, 5), (5, 5)] ''damp'' False [5, 5]
      = 0"
proof -
  let ?g = "\<lparr>shape = [11, 12], spacing = [10, 5]\<rparr>"
  let ?p = "[(5, 5), (5, 5)] :: (int \<times> int) list"
  have ok: "thick_enough False ?g ?p"
    by (simp add: thick_enough_def left_active_def less_Suc_eq numeral_2_eq_2 nth_Cons')
  have int: "interior False ?g ?p [5, 5]"
    by (simp add: interior_def left_active_def in_layer_def dist_near_def dist_far_def
        less_Suc_eq numeral_2_eq_2 nth_Cons')
  have tot: "layers_total False ?g ?p [0, 11] = layer_ramp 2 0 / 10 + layer_ramp 2 0 / 5"
    by (simp add: layers_total_def left_active_def side_contribution_def in_layer_def
        dist_near_def dist_far_def numeral_2_eq_2 nth_Cons')
  from damp_field_values[OF ok, of "[0, 11]"] tot
  have a: "damp_at ?g ?p ''damp'' False [0, 11] = layer_ramp 2 0 / 10 + layer_ramp 2 0 / 5"
    by (simp only:)
  from damp_field_values[OF ok, of "[5, 5]"] int
  have b: "damp_at ?g ?p ''damp'' False [5, 5] = 0"
    by blast
  from a b show ?thesis by (rule conjI)
qed

subsection \<open>Values of the mask-type field\<close>

text \<open>
  Claim C6, as the code has it. For a field initialised with \<open>abc_type = "mask"\<close> whose
  processed sides are all thicker than 3 cells, every cell holds 1 minus the sum, over all
  dimension-sides whose layer contains the cell, of the ramp divided by the spacing of
  that dimension (the division by the spacing applies to mask fields as it does to damp
  fields); a cell in no layer holds exactly 1.
\<close>

theorem mask_field_values:
  "thick_enough fs g pads \<Longrightarrow>
     damp_at g pads ''mask'' fs idx = 1 - layers_total fs g pads idx
     \<and> (interior fs g pads idx \<longrightarrow> damp_at g pads ''mask'' fs idx = 1)"
  by (simp add: damp_at_closed thick_enough_length interior_total)

theorem mask_field_values_witness:
  "damp_at \<lparr>shape = [9], spacing = [2]\<rparr> [(4, 4)] ''mask'' False [0] = 1 - 3 * ln 1000 / 2
   \<and> damp_at \<lparr>shape = [9], spacing = [2]\<rparr> [(4, 4)] ''mask'' False [4] = 1"
proof -
  let ?g = "\<lparr>shape = [9], spacing = [2]\<rparr>"
  let ?p = "[(4, 4)] :: (int \<times> int) list"
  have ok: "thick_enough False ?g ?p"
    by (simp add: thick_enough_def left_active_def)
  have int: "interior False ?g ?p [4]"
    by (simp add: interior_def left_active_def in_layer_def dist_near_def dist_far_def)
  have tot: "layers_total False ?g ?p [0] = 3 * ln 1000 / 2"
    by (simp add: layers_total_def left_active_def side_contribution_def in_layer_def
        dist_near_def dist_far_def layer_ramp_1_0)
  from mask_field_values[OF ok, of "[0]"] tot
  have a: "damp_at ?g ?p ''mask'' False [0] = 1 - 3 * ln 1000 / 2"
    by (simp only:)
  from mask_field_values[OF ok, of "[4]"] int
  have b: "damp_at ?g ?p ''mask'' False [4] = 1"
    by blast
  from a b show ?thesis by (rule conjI)
qed

text \<open>
  Claim C6 as stated fails: on a one-dimensional grid of 9 cells with spacing 2 and
  thickness 4 on both sides, the outermost cell of a mask field holds
  \<open>1 - ramp / 2\<close>, not \<open>1 - ramp\<close>.
\<close>

theorem mask_spacing_counterexample:
  "damp_at \<lparr>shape = [9], spacing = [2]\<rparr> [(4, 4)] ''mask'' False [0]
     = 1 - layer_ramp (4 - 3) 0 / 2
   \<and> damp_at \<lparr>shape = [9], spacing = [2]\<rparr> [(4, 4)] ''mask'' False [0]
     \<noteq> 1 - layer_ramp (4 - 3) 0"
proof -
  let ?g = "\<lparr>shape = [9], spacing = [2]\<rparr>"
  let ?p = "[(4, 4)] :: (int \<times> int) list"
  have ok: "thick_enough False ?g ?p"
    by (simp add: thick_enough_def left_active_def)
  have tot: "layers_total False ?g ?p [0] = 3 * ln 1000 / 2"
    by (simp add: layers_total_def left_active_def side_contribution_def in_layer_def
        dist_near_def dist_far_def layer_ramp_1_0)
  have v: "damp_at ?g ?p ''mask'' False [0] = 1 - 3 * ln 1000 / 2"
    by (simp add: damp_at_closed[OF thick_enough_length[OF ok]] tot)
  have "0 < ln (1000::real)"
    by simp
  then have ne: "1 - 3 * ln 1000 / 2 \<noteq> 1 - layer_ramp (4 - 3) (0::int)"
    by (simp add: layer_ramp_1_0)
  have eq: "1 - 3 * ln 1000 / 2 = 1 - layer_ramp (4 - 3) (0::int) / 2"
    by (simp add: layer_ramp_1_0)
  from v ne eq show ?thesis by simp
qed

subsection \<open>The free surface\<close>

lemma layer_ramp_2_0: "layer_ramp 2 0 = 9 / 8 * ln 1000"
proof -
  have "sin (3 * pi) = 0"
    using sin_npi[of 3] by simp
  then show ?thesis
    by (simp add: layer_ramp_def Let_def)
qed

text \<open>
  Claim C7, as the code has it. With the free-surface flag on, the near side of the last
  dimension adds nothing to the field, for every layer thickness and in both encodings:
  every value is the base value plus the contributions of the other dimension-sides
  alone, which are damped as without a free surface; the field does not depend on the
  thickness \<open>t\<close> given for that side; and every cell outside the layers of the other
  sides, however close to the surface, holds exactly the base value (1 for mask, 0 for
  damp). A cell of the surface that lies in the layer of another side carries that
  side's damping.
\<close>

theorem free_surface_near_side:
  assumes len: "length pads = length (shape g)"
  shows "damp_at g pads abc True idx =
           base_value abc +
             (if abc = ''mask'' then -1 else 1) *
             (\<Sum>d<length (shape g).
                (if d \<noteq> length (shape g) - 1
                 then side_contribution (spacing g ! d) (fst (pads ! d)) (dist_near idx d)
                 else 0)
                + side_contribution (spacing g ! d) (snd (pads ! d)) (dist_far g idx d))
       \<and> damp_at g (pads[length (shape g) - 1 := (t, snd (pads ! (length (shape g) - 1)))])
             abc True idx = damp_at g pads abc True idx
       \<and> ((\<forall>d<length (shape g).
              (d \<noteq> length (shape g) - 1 \<longrightarrow> \<not> in_layer (fst (pads ! d) - 3) (dist_near idx d))
              \<and> \<not> in_layer (snd (pads ! d) - 3) (dist_far g idx d))
            \<longrightarrow> damp_at g pads abc True idx = base_value abc)"
proof -
  let ?n = "length (shape g)"
  let ?q = "pads[?n - 1 := (t, snd (pads ! (?n - 1)))]"
  have len': "length ?q = ?n"
    using len by simp
  have same: "layers_total True g ?q idx = layers_total True g pads idx"
    unfolding layers_total_def
    by (intro sum.cong refl) (auto simp: left_active_def nth_list_update len)
  have a: "damp_at g pads abc True idx =
           base_value abc + (if abc = ''mask'' then -1 else 1) * layers_total True g pads idx"
    by (simp add: damp_at_closed[OF len] base_value_def)
  have b: "damp_at g ?q abc True idx = damp_at g pads abc True idx"
    by (simp only: damp_at_closed[OF len] damp_at_closed[OF len'] same)
  have c: "interior True g pads idx \<longrightarrow> damp_at g pads abc True idx = base_value abc"
    by (simp add: damp_at_closed[OF len] interior_total base_value_def)
  from a b c show ?thesis
    by (simp only: layers_total_def interior_def left_active_def simp_thms)
qed

theorem free_surface_near_side_witness:
  "damp_at \<lparr>shape = [11, 8], spacing = [10, 10]\<rparr> (padsizes_of 2 5 True) ''mask'' True [5, 0]
     = 1
   \<and> damp_at \<lparr>shape = [11, 8], spacing = [10, 10]\<rparr> ((padsizes_of 2 5 True)[1 := (40, 5)])
       ''mask'' True [5, 0] = 1
   \<and> damp_at \<lparr>shape = [11, 8], spacing = [10, 10]\<rparr> (padsizes_of 2 5 True) ''damp'' True [0, 0]
     = layer_ramp 2 0 / 10
   \<and> damp_at \<lparr>shape = [5, 4], spacing = [10, 10]\<rparr> (padsizes_of 2 2 True) ''mask'' True [0, 0]
     = 1"
proof -
  let ?g = "\<lparr>shape = [11, 8], spacing = [10, 10]\<rparr>"
  let ?p = "[(5, 5), (0, 5)] :: (int \<times> int) list"
  let ?h = "\<lparr>shape = [5, 4], spacing = [10, 10]\<rparr>"
  let ?r = "[(2, 2), (0, 2)] :: (int \<times> int) list"
  have p: "padsizes_of 2 5 True = ?p"
    by (simp add: padsizes_of_def)
  have r: "padsizes_of 2 2 True = ?r"
    by (simp add: padsizes_of_def)
  have len: "length ?p = length (shape ?g)"
    by simp
  have lenr: "length ?r = length (shape ?h)"
    by simp
  have int: "\<forall>d<length (shape ?g).
       (d \<noteq> length (shape ?g) - 1 \<longrightarrow> \<not> in_layer (fst (?p ! d) - 3) (dist_near [5, 0] d))
       \<and> \<not> in_layer (snd (?p ! d) - 3) (dist_far ?g [5, 0] d)"
    by (simp add: in_layer_def dist_near_def dist_far_def less_Suc_eq numeral_2_eq_2 nth_Cons')
  have intr: "\<forall>d<length (shape ?h).
       (d \<noteq> length (shape ?h) - 1 \<longrightarrow> \<not> in_layer (fst (?r ! d) - 3) (dist_near [0, 0] d))
       \<and> \<not> in_layer (snd (?r ! d) - 3) (dist_far ?h [0, 0] d)"
    by (simp add: in_layer_def dist_near_def dist_far_def less_Suc_eq numeral_2_eq_2 nth_Cons')
  note th = free_surface_near_side[OF len, of "''mask''" "[5, 0]" 40]
  from th have "(\<forall>d<length (shape ?g).
       (d \<noteq> length (shape ?g) - 1 \<longrightarrow> \<not> in_layer (fst (?p ! d) - 3) (dist_near [5, 0] d))
       \<and> \<not> in_layer (snd (?p ! d) - 3) (dist_far ?g [5, 0] d))
      \<longrightarrow> damp_at ?g ?p ''mask'' True [5, 0] = base_value ''mask''"
    by (elim conjE)
  with int have "damp_at ?g ?p ''mask'' True [5, 0] = base_value ''mask''"
    by (rule rev_mp)
  then have a: "damp_at ?g ?p ''mask'' True [5, 0] = 1"
    by (simp add: base_value_def)
  from th have "damp_at ?g (?p[length (shape ?g) - 1 := (40, snd (?p ! (length (shape ?g) - 1)))])
       ''mask'' True [5, 0] = damp_at ?g ?p ''mask'' True [5, 0]"
    by (elim conjE)
  then have b: "damp_at ?g (?p[1 := (40, 5)]) ''mask'' True [5, 0] = 1"
    using a by simp
  have "damp_at ?g ?p ''damp'' True [0, 0] =
      base_value ''damp'' + (if ''damp'' = ''mask'' then -1 else 1) *
        (\<Sum>d<length (shape ?g).
           (if d \<noteq> length (shape ?g) - 1
            then side_contribution (spacing ?g ! d) (fst (?p ! d)) (dist_near [0, 0] d) else 0)
           + side_contribution (spacing ?g ! d) (snd (?p ! d)) (dist_far ?g [0, 0] d))"
    using free_surface_near_side[OF len, of "''damp''" "[0, 0]" 0] by (elim conjE)
  then have c: "damp_at ?g ?p ''damp'' True [0, 0] = layer_ramp 2 0 / 10"
    by (simp add: base_value_def side_contribution_def in_layer_def dist_near_def dist_far_def
        numeral_2_eq_2 nth_Cons')
  from free_surface_near_side[OF lenr, of "''mask''" "[0, 0]" 0]
  have "(\<forall>d<length (shape ?h).
       (d \<noteq> length (shape ?h) - 1 \<longrightarrow> \<not> in_layer (fst (?r ! d) - 3) (dist_near [0, 0] d))
       \<and> \<not> in_layer (snd (?r ! d) - 3) (dist_far ?h [0, 0] d))
      \<longrightarrow> damp_at ?h ?r ''mask'' True [0, 0] = base_value ''mask''"
    by (elim conjE)
  with intr have "damp_at ?h ?r ''mask'' True [0, 0] = base_value ''mask''"
    by (rule rev_mp)
  then have d: "damp_at ?h ?r ''mask'' True [0, 0] = 1"
    by (simp add: base_value_def)
  from a b c d show ?thesis by (simp only: p r simp_thms)
qed

text \<open>
  Claim C7 as stated fails: not all values on the near side of the last dimension keep
  the base value. On a grid of 11 by 8 cells with spacing 10, free surface on and 5
  absorbing cells, the damp field at the surface cell \<open>[0, 0]\<close>, which lies in the near
  layer of the first dimension, holds that layer's ramp divided by the spacing,
  \<open>9/8 \<cdot> ln(1000) / 10\<close>, not 0.
\<close>

theorem free_surface_corner_counterexample:
  "damp_at \<lparr>shape = [11, 8], spacing = [10, 10]\<rparr> (padsizes_of 2 5 True) ''damp'' True [0, 0]
     = 9 / 8 * ln 1000 / 10
   \<and> damp_at \<lparr>shape = [11, 8], spacing = [10, 10]\<rparr> (padsizes_of 2 5 True) ''damp'' True [0, 0]
     \<noteq> base_value ''damp''"
proof -
  let ?g = "\<lparr>shape = [11, 8], spacing = [10, 10]\<rparr>"
  let ?p = "[(5, 5), (0, 5)] :: (int \<times> int) list"
  have p: "padsizes_of 2 5 True = ?p"
    by (simp add: padsizes_of_def)
  have len: "length ?p = length (shape ?g)"
    by simp
  have tot: "layers_total True ?g ?p [0, 0] = 9 / 8 * ln 1000 / 10"
    by (simp add: layers_total_def left_active_def side_contribution_def in_layer_def
        dist_near_def dist_far_def numeral_2_eq_2 nth_Cons' layer_ramp_2_0)
  have v: "damp_at ?g ?p ''damp'' True [0, 0] = 9 / 8 * ln 1000 / 10"
    by (simp add: damp_at_closed[OF len] tot)
  have "0 < ln (1000::real)"
    by simp
  then have ne: "9 / 8 * ln 1000 / 10 \<noteq> base_value ''damp''"
    by (simp add: base_value_def)
  from v ne show ?thesis by (simp only: p simp_thms)
qed

section \<open>Properties of the constructor\<close>

lemma then_do_Inr: "then_do r k = Inr y \<longleftrightarrow> (\<exists>x. r = Inr x \<and> k x = Inr y)"
  by (cases r) (simp_all add: then_do_def)

lemma then_do_simps [simp]: "then_do (Inr x) k = k x" "then_do (Inl e) k = Inl e"
  by (simp_all add: then_do_def)

lemma Model_init_fields:
  assumes "Model_init ext a = Inr mdl"
  shows "self_shape mdl = arg_shape a"
    and "self_nbl mdl = arg_nbl a"
    and "self_fs mdl = arg_fs a"
    and "self_grid mdl = \<lparr>shape = shape_pml (arg_shape a) (arg_nbl a) (arg_fs a), spacing = arg_spacing a\<rparr>"
    and "self_space_order mdl = arg_space_order a"
    and "self_is_viscoacoustic mdl = (arg_qp a \<noteq> None)"
    and "self_is_elastic mdl = (arg_mu a \<noteq> None)"
    and "self_is_tti mdl = (arg_epsilon a \<noteq> None \<or> arg_delta a \<noteq> None \<or> arg_theta a \<noteq> None \<or> arg_phi a \<noteq> None)"
    and "self_dt mdl = arg_dt a"
  using assms unfolding Model_init_def Let_def
  by (auto simp: then_do_Inr split: prod.splits)


text \<open>
  The density given as the number 2: as a float its reciprocal 0.5 is stored, as an
  integer the integer reciprocal 0.
\<close>

lemma init_density_float_rho:
  "init_density ext shp g pads (Some (Num 2)) b params =
     Inr ((Constant (1 / 2), Some (Reciprocal (Constant (1 / 2)))), params @ [''irho''])"
  by (simp add: init_density_def amin_def amax_def np_reciprocal_def gen_phys_param_def Let_def)

lemma init_density_integer_rho:
  "init_density ext shp g pads (Some (IntNum 2)) b params =
     Inr ((Constant 0, Some (Reciprocal (Constant 0))), params @ [''irho''])"
  by (simp add: init_density_def amin_def amax_def np_reciprocal_def int_reciprocal_def
      gen_phys_param_def Let_def)

lemma example_shape: "shape_pml [5, 5] 4 False = [13, 13]"
  by (simp add: shape_pml_def)

lemma example_pads: "padsizes_of (Suc (Suc 0)) 4 False = [(4, 4), (4, 4)]"
  by (simp add: padsizes_of_def)

lemma acoustic_example_init:
  "\<exists>f. Model_init ext acoustic_example =
     Inr \<lparr>self_shape = [5, 5], self_nbl = 4, self_fs = False,
          self_grid = \<lparr>shape = [13, 13], spacing = [1234 / 100, 1234 / 100]\<rparr>,
          self_damp = DampFunction f, self_physical_parameters = [''damp'', ''m''],
          self_scale = 1, self_space_order = 8, self_m = Some (Constant (136 / 405)),
          self_irho = Number 1, self_rho = None, self_dm = Number 0,
          self_is_viscoacoustic = False, self_is_elastic = False, self_is_tti = False,
          self_qp = None, self_epsilon = None, self_delta = None, self_theta = None,
          self_phi = None, self_lam = None, self_mu = None, self_dt = None\<rparr>"
proof -
  define f where "f = initialize_damp \<lparr>shape = [13, 13], spacing = [617 / 50, 617 / 50]\<rparr>
      [(4, 4), (4, 4)] ''damp'' False"
  show ?thesis
    by (rule exI[of _ f])
       (simp add: Model_init_def acoustic_example_def Let_def example_shape example_pads
          abc_type_of_def f_def gen_when_def gen_phys_param_def init_density_def amin_def)
qed

section \<open>Properties of the stable time step\<close>

subsection \<open>Decimal rounding by formatting\<close>

lemma rhe_lower: "\<lfloor>x\<rfloor> \<le> round_half_even x"
  by (simp add: round_half_even_def Let_def)

lemma rhe_upper: "round_half_even x \<le> \<lfloor>x\<rfloor> + 1"
  by (simp add: round_half_even_def Let_def)

lemma rhe_of_int [simp]: "round_half_even (of_int n) = n"
  by (simp add: round_half_even_def Let_def)

lemma rhe_mono: 
  assumes "x \<le> y" shows "round_half_even x \<le> round_half_even y"
proof (cases "\<lfloor>x\<rfloor> < \<lfloor>y\<rfloor>")
  case True
  then have "round_half_even x \<le> \<lfloor>y\<rfloor>"
    using rhe_upper[of x] by linarith
  then show ?thesis using rhe_lower[of y] by linarith
next
  case False
  with assms have eq: "\<lfloor>x\<rfloor> = \<lfloor>y\<rfloor>"
    using floor_mono[of x y] by linarith
  then have "x - of_int \<lfloor>x\<rfloor> \<le> y - of_int \<lfloor>y\<rfloor>"
    using assms by simp
  then show ?thesis
    unfolding round_half_even_def Let_def eq by auto
qed

lemma rhe_ge_int: "of_int n \<le> x \<Longrightarrow> n \<le> round_half_even x"
  using rhe_mono[of "of_int n" x] by simp

lemma rhe_le_int: "x \<le> of_int n \<Longrightarrow> round_half_even x \<le> n"
  using rhe_mono[of x "of_int n"] by simp

lemma floor_log10_eq:
  assumes "0 < x" "10 powi e \<le> x" "x < 10 powi (e + 1)"
  shows "\<lfloor>log 10 x\<rfloor> = e"
proof -
  have "(10::real) powr real_of_int e = 10 powi e" "(10::real) powr (real_of_int e + 1) = 10 powi (e + 1)"
    using powr_real_of_int'[of "10::real" e] powr_real_of_int'[of "10::real" "e + 1"] by simp_all
  then show ?thesis
    using assms floor_log_eq_powr_iff[of x 10 e] by simp
qed

lemma floor_log10_bounds:
  assumes "0 < x"
  shows "10 powi \<lfloor>log 10 x\<rfloor> \<le> x \<and> x < 10 powi (\<lfloor>log 10 x\<rfloor> + 1)"
proof -
  let ?e = "\<lfloor>log 10 x\<rfloor>"
  have "(10::real) powr real_of_int ?e = 10 powi ?e" "(10::real) powr (real_of_int ?e + 1) = 10 powi (?e + 1)"
    using powr_real_of_int'[of "10::real" ?e] powr_real_of_int'[of "10::real" "?e + 1"] by simp_all
  then show ?thesis
    using assms floor_log_eq_powr_iff[of x 10 ?e] by simp
qed

lemma fmt_e_pos_eq:
  assumes "0 < x" "10 powi e \<le> x" "x < 10 powi (e + 1)"
  shows "fmt_e p x = of_int (round_half_even (x / 10 powi e * 10 ^ p)) * 10 powi (e - int p)"
  using assms floor_log10_eq[OF assms] by (simp add: fmt_e_def Let_def)

lemma fmt_e_neg: "fmt_e p (- x) = - fmt_e p x"
  by (simp add: fmt_e_def Let_def sgn_minus)

lemma digits_bounds:
  assumes "0 < x" "10 powi e \<le> x" "x < 10 powi (e + 1)"
  shows "10 ^ p \<le> round_half_even (x / 10 powi e * 10 ^ p)"
    and "round_half_even (x / 10 powi e * 10 ^ p) \<le> 10 ^ (p + 1)"
proof -
  have pe: "(0::real) < 10 powi e" by simp
  have "1 \<le> x / 10 powi e"
    using assms(2) pe by (simp add: field_simps)
  then have "1 * 10 ^ p \<le> x / 10 powi e * 10 ^ p"
    by (intro mult_right_mono) simp_all
  then have "of_int (10 ^ p) \<le> x / 10 powi e * 10 ^ p"
    by simp
  then show "10 ^ p \<le> round_half_even (x / 10 powi e * 10 ^ p)"
    by (rule rhe_ge_int)
  have "(10::real) powi (e + 1) = 10 powi e * 10"
    by (rule power_int_add_1) simp
  then have "x / 10 powi e < 10"
    using assms(3) pe by (simp add: field_simps)
  then have "x / 10 powi e * 10 ^ p \<le> 10 * 10 ^ p"
    by (intro mult_right_mono) simp_all
  then have "x / 10 powi e * 10 ^ p \<le> of_int (10 ^ (p + 1))"
    by simp
  then show "round_half_even (x / 10 powi e * 10 ^ p) \<le> 10 ^ (p + 1)"
    by (rule rhe_le_int)
qed

lemma fmt_e_range:
  assumes "0 < x" "10 powi e \<le> x" "x < 10 powi (e + 1)"
  shows "10 powi e \<le> fmt_e p x" and "fmt_e p x \<le> 10 powi (e + 1)"
proof -
  let ?q = "round_half_even (x / 10 powi e * 10 ^ p)"
  have f: "fmt_e p x = of_int ?q * 10 powi (e - int p)"
    by (rule fmt_e_pos_eq[OF assms])
  have pp: "(0::real) < 10 powi (e - int p)" by simp
  have "(10::real) powi e = 10 ^ p * 10 powi (e - int p)"
    by (simp add: power_int_diff)
  also have "\<dots> \<le> of_int ?q * 10 powi (e - int p)"
  proof (intro mult_right_mono)
    have "real_of_int (10 ^ p) \<le> real_of_int ?q"
      using digits_bounds(1)[OF assms, of p] by (simp only: of_int_le_iff)
    then show "10 ^ p \<le> real_of_int ?q" by simp
  qed (use pp in simp)
  finally show "10 powi e \<le> fmt_e p x" by (simp add: f)
  have "of_int ?q * 10 powi (e - int p) \<le> 10 ^ (p + 1) * (10::real) powi (e - int p)"
  proof (intro mult_right_mono)
    have "real_of_int ?q \<le> real_of_int (10 ^ (p + 1))"
      using digits_bounds(2)[OF assms, of p] by (simp only: of_int_le_iff)
    then show "real_of_int ?q \<le> 10 ^ (p + 1)" by simp
  qed (use pp in simp)
  also have "\<dots> = 10 powi (e + 1)"
    by (simp add: power_int_diff power_int_add)
  finally show "fmt_e p x \<le> 10 powi (e + 1)" by (simp add: f)
qed

lemma fmt_e_pos: 
  assumes "0 < x" shows "0 < fmt_e p x"
proof -
  from floor_log10_bounds[OF assms] 
  have "10 powi \<lfloor>log 10 x\<rfloor> \<le> fmt_e p x"
    by (intro fmt_e_range(1)) (use assms in simp_all)
  moreover have "(0::real) < 10 powi \<lfloor>log 10 x\<rfloor>" by simp
  ultimately show ?thesis by linarith
qed

lemma fmt_e_zero [simp]: "fmt_e p 0 = 0"
  by (simp add: fmt_e_def)

lemma fmt_e_mono_pos:
  assumes "0 < x" "x \<le> y"
  shows "fmt_e p x \<le> fmt_e p y"
proof -
  let ?ex = "\<lfloor>log 10 x\<rfloor>" and ?ey = "\<lfloor>log 10 y\<rfloor>"
  from assms have y: "0 < y" by simp
  note bdx = floor_log10_bounds[OF assms(1)] and bdy = floor_log10_bounds[OF y]
  have le: "?ex \<le> ?ey"
    using assms by (intro floor_mono) simp
  show ?thesis
  proof (cases "?ex = ?ey")
    case True
    have fx: "fmt_e p x = of_int (round_half_even (x / 10 powi ?ey * 10 ^ p)) * 10 powi (?ey - int p)"
      using fmt_e_pos_eq[of x ?ex p] bdx assms(1) True by simp
    have fy: "fmt_e p y = of_int (round_half_even (y / 10 powi ?ey * 10 ^ p)) * 10 powi (?ey - int p)"
      using fmt_e_pos_eq[of y ?ey p] bdy y by simp
    have "x / 10 powi ?ey * 10 ^ p \<le> y / 10 powi ?ey * 10 ^ p"
      using assms(2) by (intro mult_right_mono divide_right_mono) simp_all
    then have "round_half_even (x / 10 powi ?ey * 10 ^ p) \<le> round_half_even (y / 10 powi ?ey * 10 ^ p)"
      by (rule rhe_mono)
    then have "real_of_int (round_half_even (x / 10 powi ?ey * 10 ^ p))
                 \<le> real_of_int (round_half_even (y / 10 powi ?ey * 10 ^ p))"
      by (simp only: of_int_le_iff)
    then show ?thesis
      unfolding fx fy by (intro mult_right_mono) simp_all
  next
    case False
    with le have "?ex + 1 \<le> ?ey" by simp
    then have "(10::real) powi (?ex + 1) \<le> 10 powi ?ey"
      by (intro power_int_increasing) simp_all
    moreover have "fmt_e p x \<le> 10 powi (?ex + 1)"
      using fmt_e_range(2)[of x ?ex p] bdx assms(1) by simp
    moreover have "10 powi ?ey \<le> fmt_e p y"
      using fmt_e_range(1)[of y ?ey p] bdy y by simp
    ultimately show ?thesis by linarith
  qed
qed

lemma fmt_e_nonneg: "0 \<le> x \<Longrightarrow> 0 \<le> fmt_e p x"
  using fmt_e_pos[of x p] by (cases "x = 0") simp_all

lemma fmt_e_mono:
  assumes "x \<le> y"
  shows "fmt_e p x \<le> fmt_e p y"
proof -
  consider "0 < x" | "x = 0" | "x < 0" "y < 0" | "x < 0" "0 \<le> y" by linarith
  then show ?thesis
  proof cases
    case 1
    then show ?thesis using assms by (rule fmt_e_mono_pos)
  next
    case 2
    then show ?thesis using assms fmt_e_nonneg[of y p] by simp
  next
    case 3
    then have "fmt_e p (- y) \<le> fmt_e p (- x)"
      using assms by (intro fmt_e_mono_pos) simp_all
    then show ?thesis by (simp add: fmt_e_neg)
  next
    case 4
    then have "0 < fmt_e p (- x)" by (intro fmt_e_pos) simp
    then have "fmt_e p x < 0" by (simp add: fmt_e_neg)
    then show ?thesis using fmt_e_nonneg[OF 4(2), of p] by linarith
  qed
qed

lemma fmt_e_fixed:
  assumes "10 ^ p \<le> q" "q < 10 ^ (p + 1)"
  shows "fmt_e p (of_int q * 10 powi k) = of_int q * 10 powi k"
proof -
  let ?B = "real_of_int q * 10 powi k"
  have q: "real_of_int (10 ^ p) \<le> real_of_int q" "real_of_int q < real_of_int (10 ^ (p + 1))"
    using assms by (simp_all only: of_int_le_iff of_int_less_iff)
  have "(0::int) < 10 ^ p" by simp
  with assms(1) have "0 < q" by linarith
  then have qpos: "0 < real_of_int q" by simp
  have pk: "(0::real) < 10 powi k" by simp
  have B: "0 < ?B" using qpos pk by simp
  have e1: "(10::real) powi (k + int p) = 10 ^ p * 10 powi k"
    by (simp add: power_int_add)
  have "(10::real) powi (k + int p + 1) = 10 powi (k + int p) * 10"
    by (rule power_int_add_1) simp
  then have e2: "(10::real) powi (k + int p + 1) = 10 ^ (p + 1) * 10 powi k"
    by (simp only: e1 power_add power_one_right mult_ac)
  have lo: "10 powi (k + int p) \<le> ?B"
    unfolding e1 using q(1) pk by (intro mult_right_mono) simp_all
  have hi: "?B < 10 powi (k + int p + 1)"
    unfolding e2 using q(2) pk by (intro mult_strict_right_mono) simp_all
  have "?B / 10 powi (k + int p) * 10 ^ p = real_of_int q"
    unfolding e1 by simp
  then show ?thesis
    using fmt_e_pos_eq[OF B lo hi, of p] by simp
qed

lemma fmt_e_idem_pos:
  assumes "0 < x"
  shows "fmt_e p (fmt_e p x) = fmt_e p x"
proof -
  let ?e = "\<lfloor>log 10 x\<rfloor>"
  let ?q = "round_half_even (x / 10 powi ?e * 10 ^ p)"
  note b = floor_log10_bounds[OF assms]
  have f: "fmt_e p x = of_int ?q * 10 powi (?e - int p)"
    using fmt_e_pos_eq[of x ?e p] b assms by simp
  have q1: "10 ^ p \<le> ?q" and q2: "?q \<le> 10 ^ (p + 1)"
    using digits_bounds[of x ?e p] b assms by simp_all
  show ?thesis
  proof (cases "?q < 10 ^ (p + 1)")
    case True
    show ?thesis unfolding f by (rule fmt_e_fixed[OF q1 True])
  next
    case False
    with q2 have qe: "?q = 10 ^ (p + 1)" by simp
    have "real_of_int ?q * 10 powi (?e - int p) = of_int (10 ^ p) * 10 powi (?e - int p + 1)"
      unfolding qe using power_int_add_1[of "10::real" "?e - int p"] by simp
    moreover have "fmt_e p (of_int (10 ^ p) * 10 powi (?e - int p + 1))
                    = of_int (10 ^ p) * 10 powi (?e - int p + 1)"
      by (rule fmt_e_fixed) simp_all
    ultimately show ?thesis unfolding f by simp
  qed
qed

lemma fmt_e_idem: "fmt_e p (fmt_e p x) = fmt_e p x"
proof -
  consider "0 < x" | "x = 0" | "x < 0" by linarith
  then show ?thesis
  proof cases
    case 1
    then show ?thesis by (rule fmt_e_idem_pos)
  next
    case 2
    then show ?thesis by simp
  next
    case 3
    then have "fmt_e p (fmt_e p (- x)) = fmt_e p (- x)"
      by (intro fmt_e_idem_pos) simp
    then show ?thesis by (simp add: fmt_e_neg)
  qed
qed


subsection \<open>Evaluating the Courant coefficient and the time step\<close>

lemma acoustic_weights:
  "then_do (py_last (finite_diff_weights 2 (py_range (- 4) 4) 0)) py_last
     = Inr [0, 1 / 90, - (3 / 20), 3 / 2, - (49 / 18), 3 / 2, - (3 / 20), 1 / 90]"
  by code_simp

lemma elastic_weights:
  "then_do (py_last (finite_diff_weights (Suc 0) (py_range (- 2) 2) (1 / 2))) py_last
     = Inr [1 / 24, - (1 / 8), - (7 / 8), 23 / 24]"
  by code_simp

lemma centered_second_4: "sum_abs (centered_second 4) = 2048 / 315"
  by code_simp

lemma centered_first_2: "sum_abs (centered_first 2) = 7 / 3"
  by code_simp

lemma cfl_coeff_acoustic_8:
  assumes "\<not> self_is_elastic mdl" "self_space_order mdl = 8"
  shows "cfl_coeff library mdl = Inr (0.9 * sqrt (4 / (real (dim_of mdl) * (272 / 45))))"
  using assms by (simp add: cfl_coeff_def library_def Let_def acoustic_weights)

lemma cfl_coeff_elastic_4:
  assumes "self_is_elastic mdl" "self_space_order mdl = 4"
  shows "cfl_coeff library mdl = Inr (0.9 * sqrt (real (dim_of mdl)) / real (dim_of mdl) / 1)"
  using assms by (simp add: cfl_coeff_def library_def Let_def elastic_weights)

lemma critical_dt_eq:
  assumes "cfl_coeff ext mdl = Inr c" "thomsen_scale mdl = Inr ts" "max_vp mdl = Inr vp"
  shows "critical_dt ext mdl =
     Inr (let B = fmt_e 3 (c * Min (set (spacing (self_grid mdl))) / (ts * vp))
          in case self_dt mdl of
               None \<Rightarrow> (B, [])
             | Some u \<Rightarrow> if u \<noteq> 0 then (if u > B then (B, [DtTooBig u B]) else (fmt_e 3 u, []))
                         else (B, []))"
  using assms by (simp add: critical_dt_def Let_def split: option.splits)

lemma sqrt_ratio: "sqrt (45 / 136) / sqrt (405 / 136) = 1 / 3"
proof -
  have "sqrt (45 / 136) / sqrt (405 / 136) = sqrt ((45 / 136) / (405 / 136))"
    by (simp only: real_sqrt_divide)
  also have "(45 / 136) / (405 / 136) = ((1 / 3)::real)\<^sup>2"
    by (simp add: power2_eq_square)
  also have "sqrt (((1 / 3)::real)\<^sup>2) = 1 / 3"
    by simp
  finally show ?thesis .
qed

lemma fmt_3702: "fmt_e 3 (3702 / 1000) = 3702 / 1000"
  using fmt_e_pos_eq[of "3702 / 1000" 0 3] by (simp add: round_half_even_def Let_def)

lemma fmt2_3702: "fmt_e 2 (3702 / 1000) = 37 / 10"
  using fmt_e_pos_eq[of "3702 / 1000" 0 2] by (simp add: round_half_even_def Let_def)

lemma fmt_1234: "fmt_e 3 (1234 / 1000) = 1234 / 1000"
  using fmt_e_pos_eq[of "1234 / 1000" 0 3] by (simp add: round_half_even_def Let_def)

lemma fmt2_1234: "fmt_e 2 (1234 / 1000) = 123 / 100"
  using fmt_e_pos_eq[of "1234 / 1000" 0 2] by (simp add: round_half_even_def Let_def)

lemma user_dt_example_init:
  "\<exists>f. Model_init ext (acoustic_example\<lparr>arg_dt := d\<rparr>) =
     Inr \<lparr>self_shape = [5, 5], self_nbl = 4, self_fs = False,
          self_grid = \<lparr>shape = [13, 13], spacing = [1234 / 100, 1234 / 100]\<rparr>,
          self_damp = DampFunction f, self_physical_parameters = [''damp'', ''m''],
          self_scale = 1, self_space_order = 8, self_m = Some (Constant (136 / 405)),
          self_irho = Number 1, self_rho = None, self_dm = Number 0,
          self_is_viscoacoustic = False, self_is_elastic = False, self_is_tti = False,
          self_qp = None, self_epsilon = None, self_delta = None, self_theta = None,
          self_phi = None, self_lam = None, self_mu = None, self_dt = d\<rparr>"
proof -
  define f where "f = initialize_damp \<lparr>shape = [13, 13], spacing = [617 / 50, 617 / 50]\<rparr>
      [(4, 4), (4, 4)] ''damp'' False"
  show ?thesis
    by (rule exI[of _ f])
       (simp add: Model_init_def acoustic_example_def Let_def example_shape example_pads
          abc_type_of_def f_def gen_when_def gen_phys_param_def init_density_def amin_def)
qed

lemma acoustic_family_values:
  assumes "Model_init library (acoustic_example\<lparr>arg_dt := d\<rparr>) = Inr mdl"
  shows "cfl_coeff library mdl = Inr (0.9 * sqrt (4 / (2 * (272 / 45))))"
    and "thomsen_scale mdl = Inr 1"
    and "max_vp mdl = Inr (sqrt (1 / (136 / 405)))"
    and "Min (set (spacing (self_grid mdl))) = 1234 / 100"
    and "self_dt mdl = d"
    and "\<not> self_is_elastic mdl"
    and "self_m mdl = Some (Constant (136 / 405))"
proof -
  from user_dt_example_init[of library d] assms obtain f where
    m: "mdl = \<lparr>self_shape = [5, 5], self_nbl = 4, self_fs = False,
          self_grid = \<lparr>shape = [13, 13], spacing = [1234 / 100, 1234 / 100]\<rparr>,
          self_damp = DampFunction f, self_physical_parameters = [''damp'', ''m''],
          self_scale = 1, self_space_order = 8, self_m = Some (Constant (136 / 405)),
          self_irho = Number 1, self_rho = None, self_dm = Number 0,
          self_is_viscoacoustic = False, self_is_elastic = False, self_is_tti = False,
          self_qp = None, self_epsilon = None, self_delta = None, self_theta = None,
          self_phi = None, self_lam = None, self_mu = None, self_dt = d\<rparr>"
    by auto
  have ne: "\<not> self_is_elastic mdl" and so: "self_space_order mdl = 8" and dm: "dim_of mdl = 2"
    by (simp_all add: m dim_of_def)
  show "cfl_coeff library mdl = Inr (0.9 * sqrt (4 / (2 * (272 / 45))))"
    using cfl_coeff_acoustic_8[OF ne so] by (simp add: dm)
  show "thomsen_scale mdl = Inr 1"
    by (simp add: thomsen_scale_def m)
  show "max_vp mdl = Inr (sqrt (1 / (136 / 405)))"
    by (simp add: max_vp_def m attr_def)
  show "Min (set (spacing (self_grid mdl))) = 1234 / 100"
    by (simp add: m)
  show "self_dt mdl = d" "\<not> self_is_elastic mdl" "self_m mdl = Some (Constant (136 / 405))"
    by (simp_all add: m)
qed

lemma acoustic_raw_dt:
  "0.9 * sqrt (4 / (2 * (272 / 45))) * (1234 / 100) / (1 * sqrt (1 / (136 / 405))) = (3702 / 1000 :: real)"
proof -
  have "sqrt (4 / (2 * (272 / 45))) / sqrt (1 / (136 / 405)) = sqrt (45 / 136) / sqrt (405 / 136)"
    by simp
  then have "sqrt (4 / (2 * (272 / 45))) / sqrt (1 / (136 / 405)) = 1 / 3"
    by (simp only: sqrt_ratio)
  moreover have "0.9 * sqrt (4 / (2 * (272 / 45))) * (1234 / 100) / (1 * sqrt (1 / (136 / 405)))
      = 0.9 * (1234 / 100) * (sqrt (4 / (2 * (272 / 45))) / sqrt (1 / (136 / 405)))"
    by (simp only: mult_1 times_divide_eq_right mult_ac)
  ultimately show ?thesis by simp
qed

subsection \<open>The time step without a user time step\<close>

text \<open>
  Claim C2, as the code has it. For a model with no user-supplied time step,
  \<open>critical_dt\<close> is the Courant coefficient times the smallest grid spacing divided by the
  product of the anisotropy scale and the maximum velocity, where the maximum velocity is
  \<open>sqrt(min(inverse density) \<cdot> (max(lambda) + 2 \<cdot> max(mu)))\<close> for an elastic model and
  \<open>sqrt(1 / min(squared slowness))\<close> otherwise; the result is rounded, by decimal
  formatting, to 4 significant decimal digits (three digits after the decimal point of
  the mantissa), and no warning is emitted.
\<close>

theorem critical_dt_without_user_dt:
  assumes "self_dt mdl = None"
    and "cfl_coeff ext mdl = Inr c" and "thomsen_scale mdl = Inr ts"
  shows "(self_is_elastic mdl \<longrightarrow> getmin (self_irho mdl) = Inr ir \<longrightarrow>
            self_lam mdl = Some pl \<longrightarrow> getmax pl = Inr l \<longrightarrow>
            self_mu mdl = Some pm \<longrightarrow> getmax pm = Inr u \<longrightarrow>
            critical_dt ext mdl =
              Inr (round_sig 4 (c * Min (set (spacing (self_grid mdl)))
                                 / (ts * sqrt (ir * (l + 2 * u)))), []))
       \<and> (\<not> self_is_elastic mdl \<longrightarrow> self_m mdl = Some ps \<longrightarrow> getmin ps = Inr mm \<longrightarrow>
            critical_dt ext mdl =
              Inr (round_sig 4 (c * Min (set (spacing (self_grid mdl)))
                                 / (ts * sqrt (1 / mm))), []))"
proof (intro conjI impI)
  assume "self_is_elastic mdl" "getmin (self_irho mdl) = Inr ir" "self_lam mdl = Some pl"
    "getmax pl = Inr l" "self_mu mdl = Some pm" "getmax pm = Inr u"
  then have "max_vp mdl = Inr (sqrt (ir * (l + 2 * u)))"
    by (simp add: max_vp_def attr_def)
  from critical_dt_eq[OF assms(2,3) this] assms(1)
  show "critical_dt ext mdl =
      Inr (round_sig 4 (c * Min (set (spacing (self_grid mdl))) / (ts * sqrt (ir * (l + 2 * u)))), [])"
    by (simp add: round_sig_def)
next
  assume "\<not> self_is_elastic mdl" "self_m mdl = Some ps" "getmin ps = Inr mm"
  then have "max_vp mdl = Inr (sqrt (1 / mm))"
    by (simp add: max_vp_def attr_def)
  from critical_dt_eq[OF assms(2,3) this] assms(1)
  show "critical_dt ext mdl =
      Inr (round_sig 4 (c * Min (set (spacing (self_grid mdl))) / (ts * sqrt (1 / mm))), [])"
    by (simp add: round_sig_def)
qed

theorem critical_dt_without_user_dt_witness:
  "then_do (Model_init library acoustic_example) (critical_dt library) = Inr (3702 / 1000, [])"
proof -
  obtain mdl where init: "Model_init library (acoustic_example\<lparr>arg_dt := None\<rparr>) = Inr mdl"
    using user_dt_example_init[of library None] by blast
  note v = acoustic_family_values[OF init]
  have "critical_dt library mdl =
      Inr (round_sig 4 (0.9 * sqrt (4 / (2 * (272 / 45))) * Min (set (spacing (self_grid mdl)))
             / (1 * sqrt (1 / (136 / 405)))), [])"
    using critical_dt_without_user_dt[OF v(5) v(1) v(2), of undefined undefined undefined undefined undefined
        "Constant (136 / 405)" "136 / 405"] v(6) v(7)
    by simp
  then have "critical_dt library mdl = Inr (round_sig 4 (3702 / 1000), [])"
    by (simp only: v(4) acoustic_raw_dt)
  then have "critical_dt library mdl = Inr (3702 / 1000, [])"
    using fmt_3702 by (simp add: round_sig_def)
  moreover have "acoustic_example\<lparr>arg_dt := None\<rparr> = acoustic_example"
    by (simp add: acoustic_example_def)
  ultimately show ?thesis using init by simp
qed

lemma acoustic_family_critical_dt:
  assumes "Model_init library (acoustic_example\<lparr>arg_dt := d\<rparr>) = Inr mdl"
  shows "critical_dt library mdl =
     Inr (case d of
            None \<Rightarrow> (3702 / 1000, [])
          | Some u \<Rightarrow> if u \<noteq> 0 then (if u > 3702 / 1000 then (3702 / 1000, [DtTooBig u (3702 / 1000)])
                                     else (fmt_e 3 u, []))
                      else (3702 / 1000, []))"
proof -
  note v = acoustic_family_values[OF assms]
  have "critical_dt library mdl =
     Inr (let B = fmt_e 3 (0.9 * sqrt (4 / (2 * (272 / 45))) * Min (set (spacing (self_grid mdl)))
                     / (1 * sqrt (1 / (136 / 405))))
          in case self_dt mdl of
               None \<Rightarrow> (B, [])
             | Some u \<Rightarrow> if u \<noteq> 0 then (if u > B then (B, [DtTooBig u B]) else (fmt_e 3 u, []))
                         else (B, []))"
    by (rule critical_dt_eq[OF v(1) v(2) v(3)])
  then have "critical_dt library mdl =
     Inr (let B = fmt_e 3 (3702 / 1000)
          in case d of
               None \<Rightarrow> (B, [])
             | Some u \<Rightarrow> if u \<noteq> 0 then (if u > B then (B, [DtTooBig u B]) else (fmt_e 3 u, []))
                         else (B, []))"
    by (simp only: v(4) v(5) acoustic_raw_dt)
  then show ?thesis
    by (simp only: fmt_3702 Let_def)
qed

text \<open>
  Claim C2 as stated fails: for the acoustic example the time step is 3.702, which has
  four significant digits; rounding the same quotient to 3 significant digits gives 3.7.
\<close>

theorem critical_dt_rounding_counterexample:
  "then_do (Model_init library acoustic_example) (critical_dt library) = Inr (3702 / 1000, [])
   \<and> then_do (Model_init library acoustic_example) (\<lambda>mdl.
         then_do (cfl_coeff library mdl) (\<lambda>c.
         then_do (thomsen_scale mdl) (\<lambda>ts.
         then_do (max_vp mdl) (\<lambda>vp.
           Inr (round_sig 3 (c * Min (set (spacing (self_grid mdl))) / (ts * vp)), [])))))
       = Inr (37 / 10, [])"
proof -
  obtain mdl where init: "Model_init library (acoustic_example\<lparr>arg_dt := None\<rparr>) = Inr mdl"
    using user_dt_example_init[of library None] by blast
  have e: "acoustic_example\<lparr>arg_dt := None\<rparr> = acoustic_example"
    by (simp add: acoustic_example_def)
  note v = acoustic_family_values[OF init]
  have a: "critical_dt library mdl = Inr (3702 / 1000, [])"
    using acoustic_family_critical_dt[OF init] by simp
  have "round_sig 3 (0.9 * sqrt (4 / (2 * (272 / 45))) * Min (set (spacing (self_grid mdl)))
                     / (1 * sqrt (1 / (136 / 405)))) = round_sig 3 (3702 / 1000)"
    by (simp only: v(4) acoustic_raw_dt)
  also have "\<dots> = 37 / 10"
    using fmt2_3702 by (simp add: round_sig_def)
  finally have b: "then_do (cfl_coeff library mdl) (\<lambda>c.
         then_do (thomsen_scale mdl) (\<lambda>ts.
         then_do (max_vp mdl) (\<lambda>vp.
           Inr (round_sig 3 (c * Min (set (spacing (self_grid mdl))) / (ts * vp)), []))))
       = Inr (37 / 10, [])"
    by (simp only: v(1) v(2) v(3) then_do_simps)
  from a b init show ?thesis
    by (simp only: e then_do_simps simp_thms)
qed

subsection \<open>The time step with a user time step\<close>

lemma no_dt_independent:
  "cfl_coeff ext (mdl\<lparr>self_dt := d\<rparr>) = cfl_coeff ext mdl"
  "thomsen_scale (mdl\<lparr>self_dt := d\<rparr>) = thomsen_scale mdl"
  "max_vp (mdl\<lparr>self_dt := d\<rparr>) = max_vp mdl"
  by (simp_all add: cfl_coeff_def thomsen_scale_def max_vp_def dim_of_def)

lemma critical_dt_Inr_parts:
  assumes "critical_dt ext mdl = Inr r"
  obtains c ts vp where "cfl_coeff ext mdl = Inr c" "thomsen_scale mdl = Inr ts" "max_vp mdl = Inr vp"
  using assms unfolding critical_dt_def by (auto simp: then_do_Inr)

text \<open>
  Claim C3, as the code has it. Let a model have a user-supplied time step \<open>u\<close>, and let
  \<open>B\<close> be the bound that \<open>critical_dt\<close> computes for the same model without a user time
  step. If \<open>u\<close> is not 0 and exceeds \<open>B\<close>, \<open>critical_dt\<close> emits exactly one warning and
  returns \<open>B\<close>; if \<open>u\<close> is not 0 and is at most \<open>B\<close>, it returns \<open>u\<close> rounded to 4
  significant digits and emits no warning; a user time step of 0 is treated as absent:
  \<open>B\<close> is returned with no warning; in every case the value returned does not exceed
  \<open>B\<close>.
\<close>

theorem critical_dt_with_user_dt:
  assumes "self_dt mdl = Some u"
    and "critical_dt ext (dt_setter mdl None) = Inr (B, [])"
  shows "(u \<noteq> 0 \<and> B < u \<longrightarrow> critical_dt ext mdl = Inr (B, [DtTooBig u B]))
       \<and> (u \<noteq> 0 \<and> u \<le> B \<longrightarrow> critical_dt ext mdl = Inr (round_sig 4 u, []))
       \<and> (u = 0 \<longrightarrow> critical_dt ext mdl = Inr (B, []))
       \<and> (\<exists>dt ws. critical_dt ext mdl = Inr (dt, ws) \<and> dt \<le> B)"
proof -
  note bound = assms(2)[unfolded dt_setter_def]
  from critical_dt_Inr_parts[OF bound] obtain c ts vp where
    p: "cfl_coeff ext mdl = Inr c" "thomsen_scale mdl = Inr ts" "max_vp mdl = Inr vp"
    by (auto simp: no_dt_independent)
  let ?raw = "c * Min (set (spacing (self_grid mdl))) / (ts * vp)"
  have "critical_dt ext (mdl\<lparr>self_dt := None\<rparr>) = Inr (fmt_e 3 ?raw, [])"
    using critical_dt_eq[of ext "mdl\<lparr>self_dt := None\<rparr>" c ts vp] p
    by (simp add: no_dt_independent)
  with bound have B: "B = fmt_e 3 ?raw" by simp
  have cd: "critical_dt ext mdl =
      Inr (if u \<noteq> 0 then (if u > B then (B, [DtTooBig u B]) else (fmt_e 3 u, []))
           else (B, []))"
    using critical_dt_eq[OF p] assms(1) B by (simp add: Let_def)
  have fixed: "fmt_e 3 B = B"
    unfolding B by (rule fmt_e_idem)
  have le: "fmt_e 3 u \<le> B" if "u \<le> B"
    using fmt_e_mono[OF that, of 3] fixed by simp
  show ?thesis
    using cd le by (auto simp: round_sig_def)
qed

theorem critical_dt_with_user_dt_witness:
  "then_do (Model_init library acoustic_example)
      (\<lambda>mdl. critical_dt library (dt_setter mdl (Some (1234 / 1000)))) = Inr (1234 / 1000, [])
   \<and> then_do (Model_init library acoustic_example)
      (\<lambda>mdl. critical_dt library (dt_setter mdl (Some 5)))
       = Inr (3702 / 1000, [DtTooBig 5 (3702 / 1000)])
   \<and> then_do (Model_init library acoustic_example)
      (\<lambda>mdl. critical_dt library (dt_setter mdl (Some 0))) = Inr (3702 / 1000, [])"
proof -
  obtain m0 where i0: "Model_init library (acoustic_example\<lparr>arg_dt := None\<rparr>) = Inr m0"
    using user_dt_example_init[of library None] by blast
  have e: "acoustic_example\<lparr>arg_dt := None\<rparr> = acoustic_example"
    by (simp add: acoustic_example_def)
  have d0: "self_dt m0 = None"
    using acoustic_family_values(5)[OF i0] .
  have "m0\<lparr>self_dt := self_dt m0\<rparr> = m0"
    by simp
  then have same: "m0\<lparr>self_dt := None\<rparr> = m0"
    by (simp only: d0)
  have b0: "critical_dt library m0 = Inr (3702 / 1000, [])"
    using acoustic_family_critical_dt[OF i0] by simp
  have "critical_dt library (m0\<lparr>self_dt := Some (1234 / 1000)\<rparr>)
          = Inr (round_sig 4 (1234 / 1000), [])"
    using critical_dt_with_user_dt[of "m0\<lparr>self_dt := Some (1234 / 1000)\<rparr>" "1234 / 1000"
        library "3702 / 1000"] b0 same
    by (simp add: dt_setter_def)
  then have a: "critical_dt library (m0\<lparr>self_dt := Some (1234 / 1000)\<rparr>) = Inr (1234 / 1000, [])"
    using fmt_1234 by (simp add: round_sig_def)
  have b: "critical_dt library (m0\<lparr>self_dt := Some 5\<rparr>)
      = Inr (3702 / 1000, [DtTooBig 5 (3702 / 1000)])"
    using critical_dt_with_user_dt[of "m0\<lparr>self_dt := Some 5\<rparr>" 5 library "3702 / 1000"] b0 same
    by (simp add: dt_setter_def)
  have c: "critical_dt library (m0\<lparr>self_dt := Some 0\<rparr>) = Inr (3702 / 1000, [])"
    using critical_dt_with_user_dt[of "m0\<lparr>self_dt := Some 0\<rparr>" 0 library "3702 / 1000"] b0 same
    by (simp add: dt_setter_def)
  from a b c i0 show ?thesis
    by (simp only: e then_do_simps simp_thms dt_setter_def)
qed

text \<open>
  Claim C3 as stated fails: a user time step of 1.234, below the bound 3.702, is returned
  as 1.234, while its rounding to 3 significant digits is 1.23; and a user time step of 0,
  also below the bound, is not returned at all: the bound is.
\<close>

theorem user_dt_rounding_counterexample:
  "then_do (Model_init library user_dt_example) (critical_dt library) = Inr (1234 / 1000, [])
   \<and> round_sig 3 (1234 / 1000) = 123 / 100
   \<and> then_do (Model_init library (acoustic_example\<lparr>arg_dt := Some 0\<rparr>)) (critical_dt library)
       = Inr (3702 / 1000, [])"
proof -
  obtain m1 where i1: "Model_init library (acoustic_example\<lparr>arg_dt := Some (1234 / 1000)\<rparr>) = Inr m1"
    using user_dt_example_init[of library "Some (1234 / 1000)"] by blast
  obtain m2 where i2: "Model_init library (acoustic_example\<lparr>arg_dt := Some 0\<rparr>) = Inr m2"
    using user_dt_example_init[of library "Some 0"] by blast
  have a: "critical_dt library m1 = Inr (1234 / 1000, [])"
    using acoustic_family_critical_dt[OF i1] fmt_1234 by simp
  have b: "round_sig 3 (1234 / 1000) = 123 / 100"
    using fmt2_1234 by (simp add: round_sig_def)
  have c: "critical_dt library m2 = Inr (3702 / 1000, [])"
    using acoustic_family_critical_dt[OF i2] by simp
  from a b c i1 i2 show ?thesis
    by (simp only: user_dt_example_def then_do_simps simp_thms)
qed

subsection \<open>Positivity and monotonicity\<close>

lemma sum_abs_pos:
  assumes "\<exists>x \<in> set w. x \<noteq> (0::real)"
  shows "0 < sum_list (map abs w)"
proof -
  from assms obtain x where x: "x \<in> set w" "x \<noteq> (0::real)"
    by blast
  have nonneg: "\<And>y. y \<in> set (map abs w) \<Longrightarrow> 0 \<le> (y::real)"
    by auto
  have "\<bar>x\<bar> \<in> set (map abs w)"
    using x(1) by simp
  then have "\<bar>x\<bar> \<le> sum_list (map abs w)"
    using nonneg by (rule member_le_sum_list)
  with x(2) show ?thesis
    by linarith
qed

lemma cfl_coeff_weights:
  "cfl_coeff ext mdl =
     then_do (stencil_weights ext mdl) (\<lambda>w. Inr
       (if self_is_elastic mdl
        then 0.9 * sqrt (real (dim_of mdl)) / real (dim_of mdl) / (sum_list (map abs w) / 2)
        else 0.9 * sqrt (4 / (real (dim_of mdl) * sum_list (map abs w)))))"
  by (simp add: cfl_coeff_def stencil_weights_def Let_def mult.assoc)

lemma cfl_coeff_pos:
  assumes dim: "0 < dim_of mdl"
    and w: "stencil_weights ext mdl = Inr w" "\<exists>x \<in> set w. x \<noteq> 0"
  shows "\<exists>c. cfl_coeff ext mdl = Inr c \<and> 0 < c"
proof -
  have s: "0 < sum_list (map abs w)"
    using w(2) by (rule sum_abs_pos)
  have d: "0 < real (dim_of mdl)"
    using dim by simp
  have "0 < 0.9 * sqrt (real (dim_of mdl)) / real (dim_of mdl) / (sum_list (map abs w) / 2)"
    using s d by simp
  moreover have "0 < 0.9 * sqrt (4 / (real (dim_of mdl) * sum_list (map abs w)))"
    using s d by simp
  ultimately show ?thesis
    by (simp add: cfl_coeff_weights w(1))
qed

lemma thomsen_scale_pos:
  assumes "self_is_tti mdl \<longrightarrow>
      (\<exists>p e. self_epsilon mdl = Some p \<and> getmax p = Inr e \<and> 0 < 1 + 2 * e)"
  shows "\<exists>ts. thomsen_scale mdl = Inr ts \<and> 0 < ts"
  using assms by (auto simp: thomsen_scale_def attr_def)

lemma min_spacing_pos:
  assumes "xs \<noteq> []" "\<forall>h \<in> set xs. (0::real) < h"
  shows "0 < Min (set xs)"
  using assms by simp

text \<open>
  The hypotheses on the weights and on the velocity in terms of the inputs: the library
  routine returns weights that are not all zero at the space orders below 10 (below 6
  for an elastic model), and the maximum velocity is positive when the squared slowness
  is positive (for an elastic model: the inverse density and \<open>lam + 2 mu\<close>).
\<close>

lemma library_weights_nonzero:
  assumes "if self_is_elastic mdl then self_space_order mdl < 6 else self_space_order mdl < 10"
  shows "\<exists>w. stencil_weights library mdl = Inr w \<and> (\<exists>x \<in> set w. x \<noteq> 0)"
proof (cases "self_is_elastic mdl")
  case True
  with assms have "max (self_space_order mdl div 2) 2 = 2"
    by simp
  then show ?thesis
    using True by (simp add: stencil_weights_def library_def Let_def elastic_weights)
next
  case False
  with assms have "max (self_space_order mdl div 2) 4 = 4"
    by simp
  then show ?thesis
    using False by (simp add: stencil_weights_def library_def Let_def acoustic_weights)
qed

lemma max_vp_pos:
  assumes "\<not> self_is_elastic mdl" "self_m mdl = Some p" "getmin p = Inr mm" "0 < mm"
  shows "\<exists>v. max_vp mdl = Inr v \<and> 0 < v"
  using assms by (simp add: max_vp_def attr_def)

lemma max_vp_elastic_pos:
  assumes "self_is_elastic mdl" "getmin (self_irho mdl) = Inr ir"
    "self_lam mdl = Some pl" "getmax pl = Inr l" "self_mu mdl = Some pm" "getmax pm = Inr u"
    "0 < ir" "0 < l + 2 * u"
  shows "\<exists>v. max_vp mdl = Inr v \<and> 0 < v"
  using assms by (simp add: max_vp_def attr_def)

lemma critical_dt_monotone_core:
  assumes c: "cfl_coeff ext mdl = Inr c" "0 < c"
    and ts: "thomsen_scale mdl = Inr ts" "0 < ts"
    and h: "0 < Min (set (spacing (self_grid mdl)))"
    and v: "max_vp mdl = Inr v" "0 < v"
    and u: "case self_dt mdl of None \<Rightarrow> True | Some u \<Rightarrow> 0 \<le> u"
    and same: "self_grid mdl' = self_grid mdl" "self_space_order mdl' = self_space_order mdl"
      "self_is_elastic mdl' = self_is_elastic mdl" "thomsen_scale mdl' = thomsen_scale mdl"
      "self_dt mdl' = self_dt mdl"
    and v': "max_vp mdl' = Inr v'" "v \<le> v'"
  shows "\<exists>dt ws dt' ws'. critical_dt ext mdl = Inr (dt, ws) \<and> critical_dt ext mdl' = Inr (dt', ws')
           \<and> 0 < dt \<and> 0 < dt' \<and> dt' \<le> dt"
proof -
  let ?h = "Min (set (spacing (self_grid mdl)))"
  let ?B = "fmt_e 3 (c * ?h / (ts * v))" and ?B' = "fmt_e 3 (c * ?h / (ts * v'))"
  have "cfl_coeff ext mdl' = cfl_coeff ext mdl"
    by (simp add: cfl_coeff_def dim_of_def same(1,2,3))
  with c(1) have c': "cfl_coeff ext mdl' = Inr c"
    by simp
  have vpos: "0 < v'" using v(2) v'(2) by linarith
  have raw: "0 < c * ?h / (ts * v)" "0 < c * ?h / (ts * v')"
    using c(2) ts(2) h v(2) vpos by simp_all
  have "c * ?h / (ts * v') \<le> c * ?h / (ts * v)"
    using c(2) ts(2) h v(2) v'(2) by (intro divide_left_mono mult_left_mono) simp_all
  then have BB: "?B' \<le> ?B" by (rule fmt_e_mono)
  have Bpos: "0 < ?B" "0 < ?B'" using raw by (simp_all add: fmt_e_pos)
  have fixed: "fmt_e 3 ?B' = ?B'" by (rule fmt_e_idem)
  have d: "critical_dt ext mdl =
     Inr (case self_dt mdl of
               None \<Rightarrow> (?B, [])
             | Some u \<Rightarrow> if u \<noteq> 0 then (if u > ?B then (?B, [DtTooBig u ?B]) else (fmt_e 3 u, []))
                         else (?B, []))"
    using critical_dt_eq[OF c(1) ts(1) v(1)] by (simp add: Let_def)
  have d': "critical_dt ext mdl' =
     Inr (case self_dt mdl of
               None \<Rightarrow> (?B', [])
             | Some u \<Rightarrow> if u \<noteq> 0 then (if u > ?B' then (?B', [DtTooBig u ?B']) else (fmt_e 3 u, []))
                         else (?B', []))"
    using critical_dt_eq[OF c' _ v'(1), of ts] ts(1) same by (simp add: Let_def)
  show ?thesis
  proof (cases "self_dt mdl")
    case None
    then show ?thesis using d d' BB Bpos by simp
  next
    case (Some u)
    with u have u0: "0 \<le> u" by simp
    show ?thesis
    proof (cases "u = 0")
      case True
      then show ?thesis using d d' BB Bpos Some by simp
    next
      case False
      with u0 have upos: "0 < u" by simp
      then have fpos: "0 < fmt_e 3 u" by (rule fmt_e_pos)
      have mid: "?B' \<le> fmt_e 3 u" if "?B' < u"
        using fmt_e_mono[of ?B' u 3] that fixed by simp
      show ?thesis
        using d d' BB Bpos Some False fpos mid by auto
    qed
  qed
qed

lemma fmt_neg_1: "fmt_e 3 (- 1) = - 1"
proof -
  have "fmt_e 3 1 = 1"
    using fmt_e_pos_eq[of 1 0 3] by (simp add: round_half_even_def Let_def)
  then show ?thesis
    by (simp add: fmt_e_neg)
qed

text \<open>
  Claim C8, as the code has it. Let a model have a grid of at least one dimension with
  positive spacings, finite-difference weights from the library that are not all zero,
  for a TTI model a stored anisotropy field \<open>epsilon\<close> whose maximum \<open>e\<close> has
  \<open>1 + 2e > 0\<close>, a positive maximum propagation velocity, and no user time step or a
  non-negative one. Then \<open>critical_dt\<close> is strictly positive; and for a second model
  with the same grid, space order, kind of physics, anisotropy and user time step whose
  maximum velocity is at least as large, \<open>critical_dt\<close> is strictly positive too and at
  most that of the first.
\<close>

theorem critical_dt_positive_monotone:
  assumes dim: "0 < dim_of mdl"
    and sp: "spacing (self_grid mdl) \<noteq> []" "\<forall>h \<in> set (spacing (self_grid mdl)). 0 < h"
    and w: "stencil_weights ext mdl = Inr w" "\<exists>x \<in> set w. x \<noteq> 0"
    and tti: "self_is_tti mdl \<longrightarrow>
      (\<exists>p e. self_epsilon mdl = Some p \<and> getmax p = Inr e \<and> 0 < 1 + 2 * e)"
    and v: "max_vp mdl = Inr v" "0 < v"
    and u: "case self_dt mdl of None \<Rightarrow> True | Some u \<Rightarrow> 0 \<le> u"
    and same: "self_grid mdl' = self_grid mdl" "self_space_order mdl' = self_space_order mdl"
      "self_is_elastic mdl' = self_is_elastic mdl" "self_is_tti mdl' = self_is_tti mdl"
      "self_epsilon mdl' = self_epsilon mdl" "self_dt mdl' = self_dt mdl"
    and v': "max_vp mdl' = Inr v'" "v \<le> v'"
  shows "\<exists>dt ws dt' ws'. critical_dt ext mdl = Inr (dt, ws) \<and> critical_dt ext mdl' = Inr (dt', ws')
           \<and> 0 < dt \<and> 0 < dt' \<and> dt' \<le> dt"
proof -
  from cfl_coeff_pos[OF dim w] obtain c where c: "cfl_coeff ext mdl = Inr c" "0 < c"
    by blast
  from thomsen_scale_pos[OF tti] obtain ts where ts: "thomsen_scale mdl = Inr ts" "0 < ts"
    by blast
  have h: "0 < Min (set (spacing (self_grid mdl)))"
    using sp by (rule min_spacing_pos)
  have tsame: "thomsen_scale mdl' = thomsen_scale mdl"
    by (simp add: thomsen_scale_def same(4,5))
  show ?thesis
    by (rule critical_dt_monotone_core[OF c ts h v u same(1,2,3) tsame same(6) v'])
qed

theorem critical_dt_positive_monotone_witness:
  "\<exists>dt' ws'. then_do (Model_init library acoustic_example)
        (\<lambda>mdl. critical_dt library (mdl\<lparr>self_m := Some (Constant (34 / 405))\<rparr>)) = Inr (dt', ws')
      \<and> 0 < dt' \<and> dt' \<le> 3702 / 1000"
proof -
  obtain m0 where i0: "Model_init library (acoustic_example\<lparr>arg_dt := None\<rparr>) = Inr m0"
    using user_dt_example_init[of library None] by blast
  have e: "acoustic_example\<lparr>arg_dt := None\<rparr> = acoustic_example"
    by (simp add: acoustic_example_def)
  note v = acoustic_family_values[OF i0]
  note fl = Model_init_fields[OF i0]
  let ?m1 = "m0\<lparr>self_m := Some (Constant (34 / 405))\<rparr>"
  let ?w = "[0, 1 / 90, - (3 / 20), 3 / 2, - (49 / 18), 3 / 2, - (3 / 20), 1 / 90] :: real list"
  have b0: "critical_dt library m0 = Inr (3702 / 1000, [])"
    using acoustic_family_critical_dt[OF i0] by simp
  have v1: "max_vp ?m1 = Inr (sqrt (1 / (34 / 405)))"
    using v(6) by (simp add: max_vp_def attr_def)
  have g: "self_grid m0 = \<lparr>shape = [13, 13], spacing = [1234 / 100, 1234 / 100]\<rparr>"
    using fl(4) by (simp add: acoustic_example_def example_shape)
  have so: "self_space_order m0 = 8"
    using fl(5) by (simp add: acoustic_example_def)
  have nt: "\<not> self_is_tti m0"
    using fl(8) by (simp add: acoustic_example_def)
  have w: "stencil_weights library m0 = Inr ?w"
    using v(6) so acoustic_weights by (simp add: stencil_weights_def library_def Let_def)
  have "\<exists>dt ws dt' ws'. critical_dt library m0 = Inr (dt, ws) \<and> critical_dt library ?m1 = Inr (dt', ws')
           \<and> 0 < dt \<and> 0 < dt' \<and> dt' \<le> dt"
  proof (rule critical_dt_positive_monotone[where w = ?w and v = "sqrt (1 / (136 / 405))"
        and v' = "sqrt (1 / (34 / 405))"])
    show "0 < dim_of m0" by (simp add: dim_of_def g)
    show "spacing (self_grid m0) \<noteq> []" by (simp add: g)
    show "\<forall>h \<in> set (spacing (self_grid m0)). 0 < h" by (simp add: g)
    show "stencil_weights library m0 = Inr ?w" by (rule w)
    show "\<exists>x \<in> set ?w. x \<noteq> 0" by simp
    show "self_is_tti m0 \<longrightarrow>
      (\<exists>p e. self_epsilon m0 = Some p \<and> getmax p = Inr e \<and> 0 < 1 + 2 * e)"
      using nt by simp
    show "max_vp m0 = Inr (sqrt (1 / (136 / 405)))" by (rule v(3))
    show "0 < sqrt (1 / (136 / 405) :: real)" by simp
    show "case self_dt m0 of None \<Rightarrow> True | Some u \<Rightarrow> 0 \<le> u" by (simp add: v(5))
    show "max_vp ?m1 = Inr (sqrt (1 / (34 / 405)))" by (rule v1)
    show "sqrt (1 / (136 / 405)) \<le> sqrt (1 / (34 / 405) :: real)" by simp
  qed simp_all
  with b0 have "\<exists>dt' ws'. critical_dt library ?m1 = Inr (dt', ws') \<and> 0 < dt' \<and> dt' \<le> 3702 / 1000"
    by auto
  with i0 show ?thesis
    by (simp only: e then_do_simps)
qed

text \<open>
  Claim C8 as stated fails: \<open>critical_dt\<close> is not strictly positive for every model. The
  acoustic example built with a user time step of \<open>-1\<close> returns \<open>-1\<close>: the user step is
  not 0 and does not exceed the bound 3.702, so it is returned, rounded.
\<close>

theorem negative_user_dt_counterexample:
  "then_do (Model_init library (acoustic_example\<lparr>arg_dt := Some (- 1)\<rparr>)) (critical_dt library)
     = Inr (- 1, [])"
proof -
  obtain m1 where i1: "Model_init library (acoustic_example\<lparr>arg_dt := Some (- 1)\<rparr>) = Inr m1"
    using user_dt_example_init[of library "Some (- 1)"] by blast
  have "critical_dt library m1 = Inr (- 1, [])"
    using acoustic_family_critical_dt[OF i1] fmt_neg_1 by simp
  with i1 show ?thesis
    by (simp only: then_do_simps)
qed

section \<open>Anisotropy scale and Courant coefficient at the examples\<close>

lemma tti_example_init:
  "\<exists>f. Model_init ext tti_example =
     Inr \<lparr>self_shape = [5, 5], self_nbl = 4, self_fs = False,
          self_grid = \<lparr>shape = [13, 13], spacing = [1234 / 100, 1234 / 100]\<rparr>,
          self_damp = DampFunction f,
          self_physical_parameters = [''damp'', ''m'', ''epsilon'', ''delta''],
          self_scale = sqrt (1 + 2 * (1 / 10)), self_space_order = 8,
          self_m = Some (Constant (136 / 405)),
          self_irho = Number 1, self_rho = None, self_dm = Number 0,
          self_is_viscoacoustic = False, self_is_elastic = False, self_is_tti = True,
          self_qp = None, self_epsilon = Some (Constant (1 + 2 * (1 / 10))),
          self_delta = Some (Constant 1), self_theta = Some (Number 0),
          self_phi = None, self_lam = None, self_mu = None, self_dt = None\<rparr>"
proof -
  define f where "f = initialize_damp \<lparr>shape = [13, 13], spacing = [617 / 50, 617 / 50]\<rparr>
      [(4, 4), (4, 4)] ''damp'' False"
  show ?thesis
    by (rule exI[of _ f])
       (simp add: Model_init_def tti_example_def acoustic_example_def Let_def example_shape
          example_pads abc_type_of_def f_def gen_when_def gen_phys_param_def init_density_def
          amin_def amax_def one_plus_twice_def)
qed

lemma elastic_example_init:
  "\<exists>f. Model_init ext elastic_example =
     Inr \<lparr>self_shape = [5, 5], self_nbl = 4, self_fs = False,
          self_grid = \<lparr>shape = [13, 13], spacing = [1234 / 100, 1234 / 100]\<rparr>,
          self_damp = DampFunction f,
          self_physical_parameters = [''damp'', ''lam'', ''mu''],
          self_scale = 1, self_space_order = 4,
          self_m = None,
          self_irho = Number 1, self_rho = None, self_dm = Number 0,
          self_is_viscoacoustic = False, self_is_elastic = True, self_is_tti = False,
          self_qp = None, self_epsilon = None,
          self_delta = None, self_theta = None,
          self_phi = None, self_lam = Some (Constant 2), self_mu = Some (Constant 1),
          self_dt = None\<rparr>"
proof -
  define f where "f = initialize_damp \<lparr>shape = [13, 13], spacing = [617 / 50, 617 / 50]\<rparr>
      [(4, 4), (4, 4)] ''mask'' False"
  show ?thesis
    by (rule exI[of _ f])
       (simp add: Model_init_def elastic_example_def acoustic_example_def Let_def example_shape
          example_pads abc_type_of_def f_def gen_when_def gen_phys_param_def init_density_def
          amin_def amax_def one_plus_twice_def)
qed

subsection \<open>The anisotropy scale\<close>

lemma thomsen_scale_scalar_epsilon:
  assumes "Model_init ext a = Inr mdl" "arg_epsilon a = Some (Num e)"
  shows "thomsen_scale mdl = Inr (sqrt (1 + 2 * (1 + 2 * e)))"
    and "self_scale mdl = sqrt (1 + 2 * e)"
  using assms unfolding Model_init_def Let_def
  by (auto simp: then_do_Inr thomsen_scale_def attr_def gen_when_def gen_phys_param_def
      one_plus_twice_def amin_def amax_def split: prod.splits)

text \<open>
  Claim C4 at the TTI example, built with a Thomsen epsilon of 0.1. The constructor
  stores \<open>1 + 2 \<cdot> 0.1\<close> as \<open>self.epsilon\<close> and \<open>sqrt(1 + 2 \<cdot> 0.1)\<close> as \<open>self.scale\<close>;
  \<open>_thomsen_scale\<close> applies \<open>1 + 2 \<cdot> _\<close> to the stored value once more and returns
  \<open>sqrt(1 + 2 \<cdot> (1 + 2 \<cdot> 0.1))\<close>, which is not the Thomsen correction
  \<open>sqrt(1 + 2 \<cdot> 0.1)\<close>.
\<close>

theorem thomsen_scale_applied_twice:
  "then_do (Model_init library tti_example) thomsen_scale = Inr (sqrt (1 + 2 * (1 + 2 * (1 / 10))))
   \<and> then_do (Model_init library tti_example) (\<lambda>mdl. Inr (self_scale mdl))
       = Inr (sqrt (1 + 2 * (1 / 10)))
   \<and> sqrt (1 + 2 * (1 + 2 * (1 / 10))) \<noteq> sqrt (1 + 2 * (1 / 10) :: real)"
proof -
  obtain mdl where init: "Model_init library tti_example = Inr mdl"
    using tti_example_init[of library] by blast
  have e: "arg_epsilon tti_example = Some (Num (1 / 10))"
    by (simp add: tti_example_def)
  note t = thomsen_scale_scalar_epsilon[OF init e]
  have "sqrt (1 + 2 * (1 + 2 * (1 / 10))) \<noteq> sqrt (1 + 2 * (1 / 10) :: real)"
    by simp
  with t init show ?thesis
    by (simp only: then_do_simps simp_thms)
qed

theorem thomsen_scale_applied_twice_witness:
  "then_do (Model_init library tti_example) thomsen_scale = Inr (sqrt (17 / 5))"
  using thomsen_scale_applied_twice by simp

subsection \<open>The Courant coefficient\<close>

lemma acoustic_weights_centered_3:
  "then_do (py_last (finite_diff_weights 2 (py_range (- 4) 4) 0)) py_last
     = Inr (0 # centered_second 3)"
  by code_simp

text \<open>
  Claim C5 at the acoustic example (space order 8, two dimensions) and at the elastic
  example (space order 4, two dimensions). The points \<open>range(-so, so)\<close> stop at
  \<open>so - 1\<close>. For the second derivative at 0 the weights on \<open>-4, \<dots>, 3\<close> are those of the
  centered stencil of half-width 3 with weight 0 at \<open>-4\<close>, so the coefficient is
  \<open>0.9 \<cdot> sqrt(4 / (2 \<cdot> 272/45))\<close>, not the \<open>0.9 \<cdot> sqrt(4 / (2 \<cdot> 2048/315))\<close> of the centered
  stencil of half-width 4. For the first derivative at 1/2 the weights on \<open>-2, \<dots>, 1\<close>
  have absolute sum 2, not the 7/3 of the stencil centered at 1/2.
\<close>

theorem cfl_coeff_stencil_width:
  "then_do (Model_init library acoustic_example) (cfl_coeff library)
      = Inr (0.9 * sqrt (4 / (2 * (272 / 45))))
   \<and> centered_cfl_coeff False 2 8 = 0.9 * sqrt (4 / (2 * (2048 / 315)))
   \<and> 0.9 * sqrt (4 / (2 * (272 / 45))) \<noteq> (0.9 * sqrt (4 / (2 * (2048 / 315))) :: real)
   \<and> then_do (py_last (finite_diff_weights 2 (py_range (- 4) 4) 0)) py_last
      = Inr (0 # centered_second 3)
   \<and> then_do (Model_init library elastic_example) (cfl_coeff library)
      = Inr (0.9 * sqrt 2 / 2 / 1)
   \<and> centered_cfl_coeff True 2 4 = 0.9 * sqrt 2 / 2 / ((7 / 3) / 2)
   \<and> 0.9 * sqrt 2 / 2 / 1 \<noteq> (0.9 * sqrt 2 / 2 / ((7 / 3) / 2) :: real)"
proof -
  obtain m0 where i0: "Model_init library (acoustic_example\<lparr>arg_dt := None\<rparr>) = Inr m0"
    using user_dt_example_init[of library None] by blast
  have e: "acoustic_example\<lparr>arg_dt := None\<rparr> = acoustic_example"
    by (simp add: acoustic_example_def)
  have a: "then_do (Model_init library acoustic_example) (cfl_coeff library)
      = Inr (0.9 * sqrt (4 / (2 * (272 / 45))))"
    using acoustic_family_values(1)[OF i0] i0 by (simp only: e then_do_simps)
  have b: "centered_cfl_coeff False 2 8 = 0.9 * sqrt (4 / (2 * (2048 / 315)))"
    by (simp add: centered_cfl_coeff_def centered_second_4)
  have c: "0.9 * sqrt (4 / (2 * (272 / 45))) \<noteq> (0.9 * sqrt (4 / (2 * (2048 / 315))) :: real)"
    by simp
  obtain m1 f where i1: "Model_init library elastic_example = Inr m1"
    and m1: "m1 = \<lparr>self_shape = [5, 5], self_nbl = 4, self_fs = False,
          self_grid = \<lparr>shape = [13, 13], spacing = [1234 / 100, 1234 / 100]\<rparr>,
          self_damp = DampFunction f,
          self_physical_parameters = [''damp'', ''lam'', ''mu''],
          self_scale = 1, self_space_order = 4,
          self_m = None,
          self_irho = Number 1, self_rho = None, self_dm = Number 0,
          self_is_viscoacoustic = False, self_is_elastic = True, self_is_tti = False,
          self_qp = None, self_epsilon = None,
          self_delta = None, self_theta = None,
          self_phi = None, self_lam = Some (Constant 2), self_mu = Some (Constant 1),
          self_dt = None\<rparr>"
    using elastic_example_init[of library] by blast
  have "cfl_coeff library m1 = Inr (0.9 * sqrt (real (dim_of m1)) / real (dim_of m1) / 1)"
    by (rule cfl_coeff_elastic_4) (simp_all add: m1)
  moreover have "dim_of m1 = 2" by (simp add: m1 dim_of_def)
  ultimately have d: "then_do (Model_init library elastic_example) (cfl_coeff library)
      = Inr (0.9 * sqrt 2 / 2 / 1)"
    using i1 by simp
  have f: "centered_cfl_coeff True 2 4 = 0.9 * sqrt 2 / 2 / ((7 / 3) / 2)"
    by (simp add: centered_cfl_coeff_def centered_first_2)
  have g: "0.9 * sqrt 2 / 2 / 1 \<noteq> (0.9 * sqrt 2 / 2 / ((7 / 3) / 2) :: real)"
    by simp
  from a b c acoustic_weights_centered_3 d f g show ?thesis
    by (intro conjI)
qed

theorem cfl_coeff_stencil_width_witness:
  "then_do (Model_init library acoustic_example) (cfl_coeff library)
      = Inr (9 / 10 * sqrt (45 / 136))"
  using cfl_coeff_stencil_width by simp

section \<open>The encoding of the boundary field\<close>

lemma sum_list_all_zero:
  "(\<And>x. x \<in> set xs \<Longrightarrow> F x = (0::real)) \<Longrightarrow> sum_list (map F xs) = 0"
  by (induction xs) auto

lemma initialize_damp_interior:
  assumes int: "interior fs g pads idx"
  shows "initialize_damp g pads abc fs idx = base_value abc"
proof -
  let ?n = "length (shape g)"
  have "dim_term abc fs g ?n idx p = 0" if "p \<in> set (zip pads [0..<?n])" for p
  proof -
    from that obtain d where d: "d < ?n" "p = (pads ! d, d)"
      by (auto simp: set_zip)
    with int have "(left_active fs ?n d \<longrightarrow> \<not> in_layer (fst (pads ! d) - 3) (dist_near idx d))
        \<and> \<not> in_layer (snd (pads ! d) - 3) (dist_far g idx d)"
      by (simp add: interior_def)
    then show ?thesis
      by (cases "pads ! d")
         (auto simp: d dim_term_def side_term_def in_layer_def dist_near_def dist_far_def)
  qed
  then have "sum_list (map (dim_term abc fs g ?n idx) (zip pads [0..<?n])) = 0"
    by (rule sum_list_all_zero)
  then show ?thesis
    by (simp add: initialize_damp_def damp_op_def damp_loop_sum eq_base_def)
qed

text \<open>
  Sides of thickness at most 3 have an empty layer: the field keeps the base value at
  every cell.
\<close>

lemma thin_layers_base_value:
  assumes "\<forall>d<length (shape g). fst (pads ! d) \<le> 3 \<and> snd (pads ! d) \<le> 3"
  shows "initialize_damp g pads abc fs idx = base_value abc"
proof -
  have "interior fs g pads idx"
    using assms by (auto simp: interior_def in_layer_def)
  then show ?thesis
    by (rule initialize_damp_interior)
qed




section \<open>Properties of the setters\<close>

lemma array_example_init:
  "\<exists>f. Model_init library array_example =
     Inr \<lparr>self_shape = [5, 5], self_nbl = 4, self_fs = False,
          self_grid = \<lparr>shape = [13, 13], spacing = [1234 / 100, 1234 / 100]\<rparr>,
          self_damp = DampFunction f, self_physical_parameters = [''damp'', ''m''],
          self_scale = 1, self_space_order = 8,
          self_m = Some (Function (pad_edge (const_array [5, 5] (136 / 405))
                           [(4, 4), (4, 4)] [13, 13])),
          self_irho = Number 1, self_rho = None, self_dm = Number 0,
          self_is_viscoacoustic = False, self_is_elastic = False, self_is_tti = False,
          self_qp = None, self_epsilon = None, self_delta = None, self_theta = None,
          self_phi = None, self_lam = None, self_mu = None, self_dt = None\<rparr>"
proof -
  define f where "f = initialize_damp \<lparr>shape = [13, 13], spacing = [617 / 50, 617 / 50]\<rparr>
      [(4, 4), (4, 4)] ''damp'' False"
  show ?thesis
    by (rule exI[of _ f])
       (simp add: Model_init_def array_example_def acoustic_example_def Let_def example_shape
          example_pads abc_type_of_def f_def gen_when_def gen_phys_param_def init_density_def
          library_def const_array_def)
qed

text \<open>
  Claim C9, as the code has it. When the stored \<open>m\<close> is a field, and when the stored
  \<open>dm\<close> is a field, an array whose shape is neither the unpadded shape of the model nor
  the shape of the stored field makes the setter raise an error before any write, so the
  model is left as it was; an array of either shape is accepted without error. While the
  stored \<open>dm\<close> is not a field the setter of \<open>dm\<close> makes no such check: it builds the
  field from any array of the unpadded shape or of a shape that broadcasts to the padded
  grid, and for any other array numpy's broadcast error is raised with the model
  unchanged.
\<close>

theorem setters_shape_check:
  "(self_m mdl = Some (Function old) \<longrightarrow>
      (nd_shape a \<noteq> nd_shape old \<and> nd_shape a \<noteq> self_shape mdl \<longrightarrow>
         (\<exists>e. m_setter ext mdl a = (mdl, Some e)))
      \<and> (nd_shape a = nd_shape old \<or> nd_shape a = self_shape mdl \<longrightarrow>
         snd (m_setter ext mdl a) = None))
   \<and> (self_dm mdl = Function old \<longrightarrow>
      (nd_shape a \<noteq> nd_shape old \<and> nd_shape a \<noteq> self_shape mdl \<longrightarrow>
         (\<exists>e. dm_setter ext mdl a = (mdl, Some e)))
      \<and> (nd_shape a = nd_shape old \<or> nd_shape a = self_shape mdl \<longrightarrow>
         snd (dm_setter ext mdl a) = None))
   \<and> ((\<forall>b. self_dm mdl \<noteq> Function b) \<longrightarrow>
      (nd_shape a = self_shape mdl \<or> broadcastable (nd_shape a) (shape (self_grid mdl)) \<longrightarrow>
         (\<exists>p. dm_setter ext mdl a =
            (mdl\<lparr>self_dm := Function p,
                 self_physical_parameters := self_physical_parameters mdl @ [''dm'']\<rparr>, None)))
      \<and> (nd_shape a \<noteq> self_shape mdl \<and> \<not> broadcastable (nd_shape a) (shape (self_grid mdl)) \<longrightarrow>
         dm_setter ext mdl a = (mdl, Some (ValueError ''could not broadcast input array''))))"
proof (intro conjI impI)
  assume "self_m mdl = Some (Function old)"
    and "nd_shape a \<noteq> nd_shape old \<and> nd_shape a \<noteq> self_shape mdl"
  then show "\<exists>e. m_setter ext mdl a = (mdl, Some e)"
    by (simp add: m_setter_def)
next
  assume "self_m mdl = Some (Function old)"
    and "nd_shape a = nd_shape old \<or> nd_shape a = self_shape mdl"
  then show "snd (m_setter ext mdl a) = None"
    by (auto simp: m_setter_def)
next
  assume "self_dm mdl = Function old"
    and "nd_shape a \<noteq> nd_shape old \<and> nd_shape a \<noteq> self_shape mdl"
  then show "\<exists>e. dm_setter ext mdl a = (mdl, Some e)"
    by (simp add: dm_setter_def)
next
  assume "self_dm mdl = Function old"
    and "nd_shape a = nd_shape old \<or> nd_shape a = self_shape mdl"
  then show "snd (dm_setter ext mdl a) = None"
    by (auto simp: dm_setter_def)
next
  assume nf: "\<forall>b. self_dm mdl \<noteq> Function b"
    and ok: "nd_shape a = self_shape mdl \<or> broadcastable (nd_shape a) (shape (self_grid mdl))"
  have d: "dm_setter ext mdl a =
      (case gen_phys_param ext (self_shape mdl) (self_grid mdl) (padsizes mdl)
                  (Some (Arr a)) ''dm'' (self_physical_parameters mdl) of
             Inl e \<Rightarrow> (mdl, Some e)
           | Inr (p, ps) \<Rightarrow> (mdl\<lparr>self_dm := p, self_physical_parameters := ps\<rparr>, None))"
    using nf by (cases "self_dm mdl") (simp_all add: dm_setter_def)
  show "\<exists>p. dm_setter ext mdl a =
            (mdl\<lparr>self_dm := Function p,
                 self_physical_parameters := self_physical_parameters mdl @ [''dm'']\<rparr>, None)"
    using ok unfolding d by (auto simp: gen_phys_param_def np_assign_def Let_def)
next
  assume nf: "\<forall>b. self_dm mdl \<noteq> Function b"
    and bad: "nd_shape a \<noteq> self_shape mdl \<and> \<not> broadcastable (nd_shape a) (shape (self_grid mdl))"
  have d: "dm_setter ext mdl a =
      (case gen_phys_param ext (self_shape mdl) (self_grid mdl) (padsizes mdl)
                  (Some (Arr a)) ''dm'' (self_physical_parameters mdl) of
             Inl e \<Rightarrow> (mdl, Some e)
           | Inr (p, ps) \<Rightarrow> (mdl\<lparr>self_dm := p, self_physical_parameters := ps\<rparr>, None))"
    using nf by (cases "self_dm mdl") (simp_all add: dm_setter_def)
  show "dm_setter ext mdl a = (mdl, Some (ValueError ''could not broadcast input array''))"
    using bad unfolding d by (simp add: gen_phys_param_def np_assign_def Let_def)
qed

text \<open>
  The exception of the shape check: the format of its message takes the tuple
  \<open>m.shape\<close> as its argument list, so the \<open>ValueError\<close> naming the shapes is raised for
  a one-dimensional array only; for an array of two dimensions the formatting itself
  raises a \<open>TypeError\<close>.
\<close>

lemma m_setter_message_slip:
  assumes "self_m mdl = Some (Function old)" "nd_shape old = [13, 13]" "self_shape mdl = [5, 5]"
  shows "m_setter ext mdl (const_array [3, 4] x) =
           (mdl, Some (TypeError ''not all arguments converted during string formatting''))"
    and "m_setter ext mdl (const_array [7] x) =
           (mdl, Some (ValueError
              ''Incorrect input size 7 for model of size (5, 5) without or (13, 13) with padding''))"
proof -
  have s13: "str_nat 13 = ''13''" and s5: "str_nat 5 = ''5''" and s7: "str_nat 7 = ''7''"
    by code_simp+
  show "m_setter ext mdl (const_array [3, 4] x) =
           (mdl, Some (TypeError ''not all arguments converted during string formatting''))"
    using assms by (simp add: m_setter_def const_array_def incorrect_input_size_def)
  show "m_setter ext mdl (const_array [7] x) =
           (mdl, Some (ValueError
              ''Incorrect input size 7 for model of size (5, 5) without or (13, 13) with padding''))"
    using assms by (simp add: m_setter_def const_array_def incorrect_input_size_def str_tuple_def s13 s5 s7)
qed

theorem setters_shape_check_witness:
  "then_do (Model_init library array_example) (\<lambda>mdl. Inr
      (fst (m_setter library mdl (const_array [3, 4] 1)) = mdl
       \<and> snd (m_setter library mdl (const_array [3, 4] 1)) \<noteq> None
       \<and> snd (m_setter library mdl (const_array [5, 5] 1)) = None
       \<and> snd (m_setter library mdl (const_array [13, 13] 1)) = None)) = Inr True"
proof -
  obtain mdl f where init: "Model_init library array_example = Inr mdl"
    and m: "mdl = \<lparr>self_shape = [5, 5], self_nbl = 4, self_fs = False,
          self_grid = \<lparr>shape = [13, 13], spacing = [1234 / 100, 1234 / 100]\<rparr>,
          self_damp = DampFunction f, self_physical_parameters = [''damp'', ''m''],
          self_scale = 1, self_space_order = 8,
          self_m = Some (Function (pad_edge (const_array [5, 5] (136 / 405))
                           [(4, 4), (4, 4)] [13, 13])),
          self_irho = Number 1, self_rho = None, self_dm = Number 0,
          self_is_viscoacoustic = False, self_is_elastic = False, self_is_tti = False,
          self_qp = None, self_epsilon = None, self_delta = None, self_theta = None,
          self_phi = None, self_lam = None, self_mu = None, self_dt = None\<rparr>"
    using array_example_init by blast
  let ?old = "pad_edge (const_array [5, 5] (136 / 405)) [(4, 4), (4, 4)] [13, 13]"
  have sm: "self_m mdl = Some (Function ?old)" and sh: "self_shape mdl = [5, 5]"
    and so: "nd_shape ?old = [13, 13]"
    by (simp_all add: m pad_edge_def)
  note th = setters_shape_check[of mdl ?old _ library]
  have "\<exists>e. m_setter library mdl (const_array [3, 4] 1) = (mdl, Some e)"
    using th[of "const_array [3, 4] 1"] sm sh so by (simp add: const_array_def)
  moreover have "snd (m_setter library mdl (const_array [5, 5] 1)) = None"
    using th[of "const_array [5, 5] 1"] sm sh so by (simp add: const_array_def)
  moreover have "snd (m_setter library mdl (const_array [13, 13] 1)) = None"
    using th[of "const_array [13, 13] 1"] sm sh so by (simp add: const_array_def)
  ultimately have "fst (m_setter library mdl (const_array [3, 4] 1)) = mdl
       \<and> snd (m_setter library mdl (const_array [3, 4] 1)) \<noteq> None
       \<and> snd (m_setter library mdl (const_array [5, 5] 1)) = None
       \<and> snd (m_setter library mdl (const_array [13, 13] 1)) = None"
    by auto
  with init show ?thesis by simp
qed

text \<open>
  Claim C9 as stated fails: on the acoustic example as constructed, the setter of \<open>dm\<close>
  accepts an array of shape (1, 13), which is neither the unpadded shape (5, 5) nor the
  padded shape (13, 13): no error is raised and the stored perturbation is replaced.
\<close>

theorem dm_setter_counterexample:
  "then_do (Model_init library acoustic_example) (\<lambda>mdl. Inr
      (snd (dm_setter library mdl (const_array [1, 13] 0)),
       self_dm (fst (dm_setter library mdl (const_array [1, 13] 0))) = self_dm mdl,
       nd_shape (const_array [1, 13] 0) = self_shape mdl
         \<or> nd_shape (const_array [1, 13] 0) = shape (self_grid mdl)))
     = Inr (None, False, False)"
proof -
  obtain mdl f where init: "Model_init library acoustic_example = Inr mdl"
    and m: "mdl = \<lparr>self_shape = [5, 5], self_nbl = 4, self_fs = False,
          self_grid = \<lparr>shape = [13, 13], spacing = [1234 / 100, 1234 / 100]\<rparr>,
          self_damp = DampFunction f, self_physical_parameters = [''damp'', ''m''],
          self_scale = 1, self_space_order = 8, self_m = Some (Constant (136 / 405)),
          self_irho = Number 1, self_rho = None, self_dm = Number 0,
          self_is_viscoacoustic = False, self_is_elastic = False, self_is_tti = False,
          self_qp = None, self_epsilon = None, self_delta = None, self_theta = None,
          self_phi = None, self_lam = None, self_mu = None, self_dt = None\<rparr>"
    using acoustic_example_init[of library] by blast
  have b: "broadcastable [1, 13] [13, 13]"
    by (simp add: broadcastable_def Let_def)
  have "\<exists>p. dm_setter library mdl (const_array [1, 13] 0) =
      (mdl\<lparr>self_dm := Function p, self_physical_parameters := [''damp'', ''m'', ''dm'']\<rparr>, None)"
    using b by (simp add: dm_setter_def m gen_phys_param_def np_assign_def const_array_def Let_def)
  then obtain p where "dm_setter library mdl (const_array [1, 13] 0) =
      (mdl\<lparr>self_dm := Function p, self_physical_parameters := [''damp'', ''m'', ''dm'']\<rparr>, None)"
    by blast
  moreover have "self_dm mdl = Number 0" "self_shape mdl = [5, 5]" "shape (self_grid mdl) = [13, 13]"
    by (simp_all add: m)
  ultimately show ?thesis
    using init by (simp add: const_array_def)
qed

end
